theory Spec2Isabelle
  imports Complex_Main
begin

section \<open>Python values, tensors and exceptions\<close>

text \<open>
  The module \<^verbatim>\<open>comfy_annotations.py\<close> turns annotated Python functions into ComfyUI
  nodes. This theory embeds its type registry, its tensor checks, its retry loop, its
  node registration and the wrapper that the host calls, and proves properties of them.

  Numbers are printed in decimal inside several error messages.
\<close>

definition digit_char :: "nat \<Rightarrow> char" where
  "digit_char d = ''0123456789'' ! d"

fun show_nat :: "nat \<Rightarrow> string" where
  "show_nat n = (if n < 10 then [digit_char n] else show_nat (n div 10) @ [digit_char (n mod 10)])"

declare show_nat.simps [simp del]

fun join :: "string \<Rightarrow> string list \<Rightarrow> string" where
  "join sep [] = []"
| "join sep [x] = x"
| "join sep (x # y # ys) = x @ sep @ join sep (y # ys)"

text \<open>\<^verbatim>\<open>str\<close> of a Python list of integers, and of a \<^verbatim>\<open>torch.Size\<close>.\<close>

definition show_list :: "nat list \<Rightarrow> string" where
  "show_list xs = ''['' @ join '', '' (map show_nat xs) @ '']''"

definition show_size :: "nat list \<Rightarrow> string" where
  "show_size xs = ''torch.Size('' @ show_list xs @ '')''"

text \<open>The newline and the single quote, which appear in messages.\<close>

definition nl :: string where
  "nl = [CHR 0x0A]"

definition quote :: string where
  "quote = [CHR 0x27]"

datatype device = Cpu | Cuda

text \<open>
  A tensor is its shape, its elements in row-major order and the device that holds it.
  Elements are real numbers: the checks of this module only compare them with 0 and 1,
  which floating point does exactly (a NaN is not modelled).
\<close>

record tensor =
  shape :: "nat list"
  elems :: "real list"
  device :: device

datatype pyval =
    VNone
  | VBool bool
  | VInt int
  | VStr string
  | VTensor tensor
  | VList "pyval list"
  | VTuple "pyval list"
  | VObject string string

text \<open>
  \<^verbatim>\<open>VObject m n\<close> is an instance of any other class, a class named \<^verbatim>\<open>n\<close> at the top
  level of the module \<^verbatim>\<open>m\<close>. The exceptions are the ones this module raises or lets through;
  \<^verbatim>\<open>UserException\<close> is any other subclass of \<^verbatim>\<open>Exception\<close> and \<^verbatim>\<open>BaseExc\<close> an
  exception outside \<^verbatim>\<open>Exception\<close> (\<^verbatim>\<open>KeyboardInterrupt\<close>), which
  \<^verbatim>\<open>except Exception\<close> does not catch.
\<close>

datatype exn =
    AssertionError string
  | ValueError string
  | RuntimeError string
  | AttributeError string
  | TypeError string
  | KeyError string
  | IndexError string
  | UserException string string
  | BaseExc string string

fun is_Exception :: "exn \<Rightarrow> bool" where
  "is_Exception (BaseExc c m) = False"
| "is_Exception e = True"

text \<open>\<^verbatim>\<open>str(e)\<close>: the message; a \<^verbatim>\<open>KeyError\<close> prints its key quoted.\<close>

fun exn_str :: "exn \<Rightarrow> string" where
  "exn_str (AssertionError m) = m"
| "exn_str (ValueError m) = m"
| "exn_str (RuntimeError m) = m"
| "exn_str (AttributeError m) = m"
| "exn_str (TypeError m) = m"
| "exn_str (KeyError m) = [CHR 0x27] @ m @ [CHR 0x27]"
| "exn_str (IndexError m) = m"
| "exn_str (UserException c m) = m"
| "exn_str (BaseExc c m) = m"

section \<open>The wildcard type and the type registry\<close>

text \<open>
  A host type tag is a Python string; the wildcard \<^verbatim>\<open>any_type = AnyType("*")\<close> is an
  instance of the subclass \<^verbatim>\<open>AnyType\<close> of \<^verbatim>\<open>str\<close>, which overrides \<^verbatim>\<open>__ne__\<close> only.
\<close>

datatype pystr = Str string | AnyType string

fun content :: "pystr \<Rightarrow> string" where
  "content (Str s) = s"
| "content (AnyType s) = s"

definition any_type :: pystr where
  "any_type = AnyType ''*''"

text \<open>The method \<^verbatim>\<open>AnyType.__ne__(self, __value)\<close>, for a value of any type.\<close>

definition AnyType_ne :: "pystr \<Rightarrow> 'a \<Rightarrow> bool" where
  "AnyType_ne self value = False"

text \<open>
  The operator \<^verbatim>\<open>x != y\<close> on two strings: the left operand's \<^verbatim>\<open>__ne__\<close>, except that
  a right operand of a proper subclass that overrides the method goes first.
  \<^verbatim>\<open>==\<close> is \<^verbatim>\<open>str.__eq__\<close>, which \<^verbatim>\<open>AnyType\<close> inherits.
\<close>

fun py_ne :: "pystr \<Rightarrow> pystr \<Rightarrow> bool" where
  "py_ne (AnyType s) y = AnyType_ne (AnyType s) y"
| "py_ne (Str s) (AnyType t) = AnyType_ne (AnyType t) (Str s)"
| "py_ne (Str s) (Str t) = (s \<noteq> t)"

definition py_eq :: "pystr \<Rightarrow> pystr \<Rightarrow> bool" where
  "py_eq x y = (content x = content y)"

text \<open>
  An annotation is a class, \<^verbatim>\<open>list[T]\<close> or \<^verbatim>\<open>tuple[T1, ..., Tn]\<close>. A class is known by
  its \<^verbatim>\<open>__module__\<close> and \<^verbatim>\<open>__qualname__\<close>; the generic aliases answer with those of
  their origin. \<^verbatim>\<open>inspect._empty\<close> marks a missing annotation.
\<close>

datatype annot =
    Class string string
  | GenericList annot
  | GenericTuple "annot list"

definition empty_annot :: annot where
  "empty_annot = Class ''inspect'' ''_empty''"

fun get_fully_qualified_name :: "annot \<Rightarrow> string" where
  "get_fully_qualified_name (Class m q) = m @ ''.'' @ q"
| "get_fully_qualified_name (GenericList a) = ''builtins.list''"
| "get_fully_qualified_name (GenericTuple as) = ''builtins.tuple''"

record type_registry =
  ANNOTATION_TO_COMFYUI_TYPE :: "string \<rightharpoonup> pystr"
  SHOULD_AUTOCONVERT :: "string \<rightharpoonup> bool"
  DEFAULT_FORCE_INPUT :: "string \<rightharpoonup> bool"

definition register_type ::
  "annot \<Rightarrow> pystr \<Rightarrow> bool \<Rightarrow> bool \<Rightarrow> bool \<Rightarrow> type_registry \<Rightarrow> type_registry" where
  "register_type cls name should_autoconvert is_auto_register force_input T =
     (let key = get_fully_qualified_name cls in
      if key \<in> dom (ANNOTATION_TO_COMFYUI_TYPE T) then T
      else T\<lparr>ANNOTATION_TO_COMFYUI_TYPE := (ANNOTATION_TO_COMFYUI_TYPE T)(key \<mapsto> name),
             SHOULD_AUTOCONVERT := (SHOULD_AUTOCONVERT T)(key \<mapsto> should_autoconvert),
             DEFAULT_FORCE_INPUT := (DEFAULT_FORCE_INPUT T)(key \<mapsto> force_input)\<rparr>)"

text \<open>The registry as the module leaves it once it is imported.\<close>

definition empty_registry :: type_registry where
  "empty_registry =
     \<lparr>ANNOTATION_TO_COMFYUI_TYPE = Map.empty,
      SHOULD_AUTOCONVERT = [''str'' \<mapsto> True],
      DEFAULT_FORCE_INPUT = Map.empty\<rparr>"

definition initial_registry :: type_registry where
  "initial_registry =
     (register_type (Class ''comfy_annotations'' ''AnyType'') any_type False False False
     (register_type (Class ''builtins'' ''bool'') (Str ''BOOLEAN'') False False False
     (register_type (Class ''builtins'' ''str'') (Str ''STRING'') False False False
     (register_type (Class ''builtins'' ''float'') (Str ''FLOAT'') False False False
     (register_type (Class ''builtins'' ''int'') (Str ''INT'') False False False
     (register_type (Class ''comfy_annotations'' ''MaskTensor'') (Str ''MASK'') False False False
     (register_type (Class ''comfy_annotations'' ''ImageTensor'') (Str ''IMAGE'') False False False
     (register_type (Class ''torch'' ''Tensor'') (Str ''TENSOR'') False False False
        empty_registry))))))))"

fun get_type_str :: "type_registry \<Rightarrow> annot \<Rightarrow> pystr" where
  "get_type_str T (GenericList a) =
     (if ''builtins.list'' \<notin> dom (ANNOTATION_TO_COMFYUI_TYPE T) then get_type_str T a
      else case ANNOTATION_TO_COMFYUI_TYPE T ''builtins.list'' of
             None \<Rightarrow> any_type | Some n \<Rightarrow> n)"
| "get_type_str T the_type =
     (case ANNOTATION_TO_COMFYUI_TYPE T (get_fully_qualified_name the_type) of
        None \<Rightarrow> any_type | Some n \<Rightarrow> n)"

section \<open>Signatures, functions and the process-wide settings\<close>

text \<open>
  The default of a parameter: none (\<^verbatim>\<open>inspect.Parameter.empty\<close>), \<^verbatim>\<open>None\<close>, a
  \<^verbatim>\<open>Choice\<close>, a \<^verbatim>\<open>StringInput\<close>, a \<^verbatim>\<open>NumberInput\<close>, or any other value.
\<close>

record string_input =
  si_value :: string
  si_multiline :: bool
  si_force_input :: bool
  si_optional :: bool
  si_hidden :: bool

record number_input =
  ni_default :: real
  ni_min :: "real option"
  ni_max :: "real option"
  ni_step :: "real option"
  ni_round :: "real option"
  ni_display :: string
  ni_optional :: bool
  ni_hidden :: bool

datatype default_value =
    NoDefault
  | DefaultNone
  | DefaultChoice "string list"
  | DefaultStringInput string_input
  | DefaultNumberInput number_input
  | DefaultValue pyval

text \<open>
  A class object is known by its identity: a class of the user's code, or a class that
  \<^verbatim>\<open>_create_comfy_node\<close> made with \<^verbatim>\<open>type(...)\<close>, numbered in order of creation and
  carrying its name.
\<close>

datatype class_ref = UserClass string | NewClass nat string

text \<open>
  A decorated function. \<^verbatim>\<open>fn_body n args kwargs\<close> is what its call number \<^verbatim>\<open>n\<close>
  (from 0) within one invocation of the wrapper does: the text it prints and logs, and
  the value it returns or the exception it raises.
\<close>

record pyfunc =
  fn_name :: string
  fn_qualname :: string
  fn_module :: string
  fn_filename :: string
  fn_firstlineno :: nat
  fn_doc :: "string option"
  fn_params :: "(string \<times> annot \<times> default_value) list"
  fn_return_annotation :: annot
  fn_globals :: "string \<rightharpoonup> class_ref"
  fn_body :: "nat \<Rightarrow> pyval list \<Rightarrow> (string \<times> pyval) list \<Rightarrow> string \<times> (exn + pyval)"

text \<open>
  One call of the failure hook \<^verbatim>\<open>process_exception_logic(func, e, input_desc, buffer)\<close>:
  the function, the exception, the descriptions of the inputs and the text captured in
  the buffer. The hook returns, or raises an exception of its own.
\<close>

type_synonym hook_call = "pyfunc \<times> exn \<times> string list \<times> string"

datatype auto_description_mode = NONE | BRIEF | FULL

text \<open>
  The settings of the module (\<^verbatim>\<open>verify_tensors\<close>, \<^verbatim>\<open>max_tries\<close>,
  \<^verbatim>\<open>process_exception_logic\<close>, \<^verbatim>\<open>reload_modules\<close>, \<^verbatim>\<open>docstring_mode\<close>) and what the
  module asks of its surroundings: whether CUDA is there, how torch prints a scalar,
  \<^verbatim>\<open>str\<close> of a value, \<^verbatim>\<open>_image_info\<close> (statistics of a tensor in torch's own
  formatting, which can raise), the constructor of a class, the colour directive
  (floating-point arithmetic on the colour), the classes that a name denotes, which
  attributes of a class are static or class methods, the modification time of a module's
  file (importing the module or reading the time can raise), whether a module has an
  attribute, the reload of a module (which can raise), the attribute of the reloaded
  module, and the preview written to disk.
\<close>

record env =
  verify_tensors :: bool
  max_tries :: int
  process_exception_logic :: "(hook_call \<Rightarrow> exn option) option"
  reload_modules :: bool
  docstring_mode :: auto_description_mode
  cuda_available :: bool
  scalar_repr :: "real \<Rightarrow> string"
  py_str :: "pyval \<Rightarrow> string"
  image_info :: "tensor \<Rightarrow> exn + string"
  construct :: "annot \<Rightarrow> pyval \<Rightarrow> exn + pyval"
  color_directive :: "string \<Rightarrow> string"
  module_globals :: "string \<rightharpoonup> class_ref"
  is_staticmethod :: "class_ref \<Rightarrow> string \<Rightarrow> bool"
  is_classmethod :: "class_ref \<Rightarrow> string \<Rightarrow> bool"
  getmtime :: "string \<Rightarrow> exn + real"
  module_hasattr :: "string \<Rightarrow> string \<Rightarrow> bool"
  reload_module :: "string \<Rightarrow> exn option"
  reloaded_attr :: "string \<Rightarrow> string \<Rightarrow> exn + pyfunc"
  add_preview :: "pyval \<Rightarrow> exn + pyval"

section \<open>Tensor verification\<close>

text \<open>
  \<^verbatim>\<open>arg.min()\<close> and \<^verbatim>\<open>arg.max()\<close>: torch refuses to reduce a tensor with no element.
\<close>

definition empty_reduction :: string where
  "empty_reduction =
     ''(): Expected reduction dim to be specified for input.numel() == 0.''
     @ '' Specify the reduction dim with the '' @ quote @ ''dim'' @ quote @ '' argument.''"

definition tensor_min :: "tensor \<Rightarrow> exn + real" where
  "tensor_min t =
     (case elems t of
        [] \<Rightarrow> Inl (RuntimeError (''min'' @ empty_reduction))
      | x # xs \<Rightarrow> Inr (fold min xs x))"

definition tensor_max :: "tensor \<Rightarrow> exn + real" where
  "tensor_max t =
     (case elems t of
        [] \<Rightarrow> Inl (RuntimeError (''max'' @ empty_reduction))
      | x # xs \<Rightarrow> Inr (fold max xs x))"

text \<open>
  The assertion \<^verbatim>\<open>arg.min() >= 0 and arg.max() <= 1\<close>. The maximum is taken by the
  condition when the minimum passes and by the message otherwise.
\<close>

definition check_mask_range :: "env \<Rightarrow> tensor \<Rightarrow> string \<Rightarrow> string \<Rightarrow> exn + unit" where
  "check_mask_range E t tensor_name tensor_type =
     (case tensor_min t of
        Inl e \<Rightarrow> Inl e
      | Inr lo \<Rightarrow>
          (case tensor_max t of
             Inl e \<Rightarrow> Inl e
           | Inr hi \<Rightarrow>
               if 0 \<le> lo \<and> hi \<le> 1 then Inr ()
               else Inl (AssertionError (tensor_name @ '': '' @ tensor_type
                      @ '' tensor must have values between 0 and 1, got min '' @ scalar_repr E lo
                      @ '' and max '' @ scalar_repr E hi))))"

definition check_shapes :: "tensor \<Rightarrow> string \<Rightarrow> string \<Rightarrow> nat list \<Rightarrow> exn + unit" where
  "check_shapes t tensor_name tensor_type allowed_shapes =
     (if length (shape t) \<in> set allowed_shapes then Inr ()
      else Inl (AssertionError (tensor_name @ '': '' @ tensor_type
             @ '' tensor must have shape in '' @ show_list allowed_shapes
             @ '', got '' @ show_size (shape t))))"

text \<open>The loop \<^verbatim>\<open>for i, dim in enumerate(allowed_dims)\<close>, from index \<^verbatim>\<open>i\<close> on.\<close>

fun check_dims :: "tensor \<Rightarrow> string \<Rightarrow> string \<Rightarrow> nat \<Rightarrow> nat list \<Rightarrow> exn + unit" where
  "check_dims t tensor_name tensor_type i [] = Inr ()"
| "check_dims t tensor_name tensor_type i (d # dims) =
     (if length (shape t) \<le> i then Inl (IndexError ''tuple index out of range'')
      else if shape t ! i \<le> d then check_dims t tensor_name tensor_type (Suc i) dims
      else Inl (AssertionError (tensor_name @ '': '' @ tensor_type @ '' tensor dimension ''
             @ show_nat i @ '' must be less than or equal to '' @ show_nat d
             @ '', got '' @ show_nat (shape t ! i))))"

definition check_channels :: "tensor \<Rightarrow> string \<Rightarrow> string \<Rightarrow> nat list \<Rightarrow> exn + unit" where
  "check_channels t tensor_name tensor_type allowed_channels =
     (if shape t = [] then Inl (IndexError ''tuple index out of range'')
      else if last (shape t) \<in> set allowed_channels then Inr ()
      else Inl (AssertionError (tensor_name @ '': '' @ tensor_type
             @ '' tensor must have the number of channels in '' @ show_list allowed_channels
             @ '', got '' @ show_nat (last (shape t)))))"

text \<open>The branch of \<^verbatim>\<open>_verify_tensor\<close> for a \<^verbatim>\<open>torch.Tensor\<close>; it ends without a \<^verbatim>\<open>return\<close>.\<close>

definition verify_one_tensor ::
  "env \<Rightarrow> tensor \<Rightarrow> string \<Rightarrow> string \<Rightarrow> nat list option \<Rightarrow> nat list option \<Rightarrow> nat list option
     \<Rightarrow> exn + pyval" where
  "verify_one_tensor E t tensor_name tensor_type allowed_shapes allowed_dims allowed_channels =
     (case (if tensor_type = ''MASK'' then check_mask_range E t tensor_name tensor_type else Inr ()) of
        Inl e \<Rightarrow> Inl e
      | Inr u1 \<Rightarrow>
     (case (case allowed_shapes of None \<Rightarrow> Inr ()
            | Some s \<Rightarrow> check_shapes t tensor_name tensor_type s) of
        Inl e \<Rightarrow> Inl e
      | Inr u2 \<Rightarrow>
     (case (case allowed_dims of None \<Rightarrow> Inr ()
            | Some d \<Rightarrow> check_dims t tensor_name tensor_type 0 d) of
        Inl e \<Rightarrow> Inl e
      | Inr u3 \<Rightarrow>
     (case (case allowed_channels of None \<Rightarrow> Inr ()
            | Some c \<Rightarrow> check_channels t tensor_name tensor_type c) of
        Inl e \<Rightarrow> Inl e
      | Inr u4 \<Rightarrow> Inr VNone))))"

text \<open>
  \<^verbatim>\<open>_verify_tensor\<close>. A list returns from the first round of its loop, with the default
  \<^verbatim>\<open>tensor_type=""\<close> in the recursive call; an empty list and any other value fall
  through to the end of the function.
\<close>

fun verify_tensor ::
  "env \<Rightarrow> pyval \<Rightarrow> string \<Rightarrow> string \<Rightarrow> nat list option \<Rightarrow> nat list option \<Rightarrow> nat list option
     \<Rightarrow> exn + pyval" where
  "verify_tensor E (VTensor t) tensor_name tensor_type allowed_shapes allowed_dims allowed_channels =
     (if \<not> verify_tensors E then Inr (VBool True)
      else verify_one_tensor E t tensor_name tensor_type allowed_shapes allowed_dims allowed_channels)"
| "verify_tensor E (VList (a # rest)) tensor_name tensor_type allowed_shapes allowed_dims allowed_channels =
     (if \<not> verify_tensors E then Inr (VBool True)
      else verify_tensor E a tensor_name [] allowed_shapes allowed_dims allowed_channels)"
| "verify_tensor E arg tensor_name tensor_type allowed_shapes allowed_dims allowed_channels =
     (if \<not> verify_tensors E then Inr (VBool True) else Inr VNone)"

type_synonym tensor_params = "nat list option \<times> nat list option \<times> nat list option"

definition tensor_types :: "(string \<times> tensor_params) list" where
  "tensor_types =
     [(''IMAGE'', (Some [4], None, Some [1, 3, 4])),
      (''MASK'', (Some [3], None, None)),
      (''DEPTH'', (Some [4], None, Some [1]))]"

text \<open>
  An entry of the input schema: \<^verbatim>\<open>(type_name, metadata)\<close>, or \<^verbatim>\<open>(choices,)\<close> for a
  \<^verbatim>\<open>Choice\<close>. \<^verbatim>\<open>has_tag inputs key t\<close> is
  \<^verbatim>\<open>key in inputs and inputs[key][0] == t\<close>.
\<close>

datatype meta_value = MBool bool | MText string | MNumber real | MDefault pyval

datatype input_spec =
    TypedInput pystr "(string \<times> meta_value) list"
  | ChoiceInput "string list"

fun head_equals :: "input_spec \<Rightarrow> string \<Rightarrow> bool" where
  "head_equals (TypedInput n m) t = py_eq n (Str t)"
| "head_equals (ChoiceInput cs) t = False"

definition has_tag :: "(string \<times> input_spec) list \<Rightarrow> string \<Rightarrow> string \<Rightarrow> bool" where
  "has_tag inputs key t =
     (case map_of inputs key of None \<Rightarrow> False | Some spec \<Rightarrow> head_equals spec t)"

fun verify_tensor_type_loop ::
  "env \<Rightarrow> (string \<times> tensor_params) list \<Rightarrow> string \<Rightarrow> pyval \<Rightarrow> (string \<times> input_spec) list
     \<Rightarrow> (string \<times> input_spec) list \<Rightarrow> string \<Rightarrow> exn + pyval" where
  "verify_tensor_type_loop E [] key arg required_inputs optional_inputs tensor_name = Inr (VBool True)"
| "verify_tensor_type_loop E ((tensor_type, (s, d, c)) # rest) key arg required_inputs optional_inputs tensor_name =
     (if has_tag required_inputs key tensor_type \<or> has_tag optional_inputs key tensor_type
      then verify_tensor E arg tensor_name tensor_type s d c
      else verify_tensor_type_loop E rest key arg required_inputs optional_inputs tensor_name)"

definition verify_tensor_type ::
  "env \<Rightarrow> string \<Rightarrow> pyval \<Rightarrow> (string \<times> input_spec) list \<Rightarrow> (string \<times> input_spec) list
     \<Rightarrow> string \<Rightarrow> exn + pyval" where
  "verify_tensor_type E key arg required_inputs optional_inputs tensor_name =
     verify_tensor_type_loop E tensor_types key arg required_inputs optional_inputs tensor_name"

definition verify_return_type :: "env \<Rightarrow> pyval \<Rightarrow> pystr \<Rightarrow> string \<Rightarrow> exn + pyval" where
  "verify_return_type E ret return_type tensor_name =
     (case map_of tensor_types (content return_type) of
        Some (s, d, c) \<Rightarrow> verify_tensor E ret tensor_name (content return_type) s d c
      | None \<Rightarrow> Inr (VBool True))"

fun all_to :: "device \<Rightarrow> pyval \<Rightarrow> pyval" where
  "all_to dev (VTensor t) = VTensor (t\<lparr>device := dev\<rparr>)"
| "all_to dev (VList xs) = VList (map (all_to dev) xs)"
| "all_to dev arg = arg"

section \<open>Calling the function and verifying its result\<close>

definition code_origin_loc :: "pyfunc \<Rightarrow> string" where
  "code_origin_loc f =
     nl @ '' Source: '' @ fn_qualname f @ '' '' @ fn_filename f @ '':'' @ show_nat (fn_firstlineno f)"

text \<open>
  The class of a value: its \<^verbatim>\<open>__name__\<close>, which error messages print, its
  \<^verbatim>\<open>__module__\<close>, and \<^verbatim>\<open>str(type(v))\<close>, which leaves the module of a builtin out.
\<close>

fun class_name :: "pyval \<Rightarrow> string" where
  "class_name VNone = ''NoneType''"
| "class_name (VBool b) = ''bool''"
| "class_name (VInt i) = ''int''"
| "class_name (VStr s) = ''str''"
| "class_name (VTensor t) = ''Tensor''"
| "class_name (VList xs) = ''list''"
| "class_name (VTuple xs) = ''tuple''"
| "class_name (VObject m n) = n"

fun class_module :: "pyval \<Rightarrow> string" where
  "class_module (VTensor t) = ''torch''"
| "class_module (VObject m n) = m"
| "class_module v = ''builtins''"

definition class_repr :: "pyval \<Rightarrow> string" where
  "class_repr v =
     ''<class '' @ quote
     @ (if class_module v = ''builtins'' then class_name v
        else class_module v @ ''.'' @ class_name v)
     @ quote @ ''>''"

text \<open>
  The buffer receives what the function prints and logs, and the records of the root
  logger at level INFO and above, formatted \<^verbatim>\<open>levelname: message\<close> on a line each.
  The first loop over the result warns about every \<^verbatim>\<open>None\<close>.
\<close>

fun none_warnings :: "nat \<Rightarrow> pyval list \<Rightarrow> string" where
  "none_warnings i [] = []"
| "none_warnings i (ret # rest) =
     (if ret = VNone then ''WARNING: Result '' @ show_nat i @ '' is None'' @ nl else [])
     @ none_warnings (Suc i) rest"

text \<open>\<^verbatim>\<open>f"'{return_names[i]}'" if return_names else f"return_{i}"\<close>\<close>

definition return_name :: "string list option \<Rightarrow> nat \<Rightarrow> exn + string" where
  "return_name return_names i =
     (case return_names of
        None \<Rightarrow> Inr (''return_'' @ show_nat i)
      | Some ns \<Rightarrow>
          if ns = [] then Inr (''return_'' @ show_nat i)
          else if i < length ns then Inr (quote @ ns ! i @ quote)
          else Inl (IndexError ''list index out of range''))"

text \<open>
  The second loop over the result, from index \<^verbatim>\<open>i\<close> on: it logs the class of the value
  when \<^verbatim>\<open>debug\<close> is set and verifies the value against its declared type; an exception
  of the verification is raised again as a \<^verbatim>\<open>ValueError\<close>.
\<close>

fun verify_results ::
  "env \<Rightarrow> pyfunc \<Rightarrow> bool \<Rightarrow> pystr list \<Rightarrow> string list option \<Rightarrow> nat \<Rightarrow> pyval list \<Rightarrow> string
     \<Rightarrow> string \<times> (exn + unit)" where
  "verify_results E f debug adjusted_return_types return_names i [] buffer = (buffer, Inr ())"
| "verify_results E f debug adjusted_return_types return_names i (ret # rest) buffer =
     (let buffer1 = (if debug then buffer @ ''INFO: Result '' @ show_nat i @ '' is ''
                                   @ class_repr ret @ nl
                     else buffer)
      in case (case return_name return_names i of
                 Inl e \<Rightarrow> Inl e
               | Inr name \<Rightarrow>
                   if i < length adjusted_return_types
                   then verify_return_type E ret (adjusted_return_types ! i) name
                   else Inl (IndexError ''tuple index out of range'')) of
           Inl e \<Rightarrow>
             if is_Exception e
             then (buffer1, Inl (ValueError (''Error verifying OUTPUT tensor '' @ exn_str e
                                   @ nl @ code_origin_loc f)))
             else (buffer1, Inl e)
         | Inr v \<Rightarrow> verify_results E f debug adjusted_return_types return_names (Suc i) rest buffer1)"

text \<open>\<^verbatim>\<open>if not isinstance(result, tuple): result = (result,)\<close>\<close>

fun as_tuple :: "pyval \<Rightarrow> pyval list" where
  "as_tuple (VTuple xs) = xs"
| "as_tuple v = [v]"

text \<open>
  The exception of the assertion \<^verbatim>\<open>len(result) == len(adjusted_return_types)\<close>, and
  what it means for a value to be on a device: every tensor that \<^verbatim>\<open>_all_to\<close> reaches,
  the value itself or an element of nested lists, is there.
\<close>

definition arity_error :: "pyfunc \<Rightarrow> string \<Rightarrow> nat \<Rightarrow> nat \<Rightarrow> exn" where
  "arity_error f wrapped_name n_values n_types =
     AssertionError (wrapped_name @ '': Number of return values '' @ show_nat n_values
       @ '' does not match number of return types '' @ show_nat n_types @ nl @ code_origin_loc f)"

fun on_device :: "device \<Rightarrow> pyval \<Rightarrow> bool" where
  "on_device dev (VTensor t) = (device t = dev)"
| "on_device dev (VList xs) = list_all (on_device dev) xs"
| "on_device dev v = True"

definition raises :: "exn + 'a \<Rightarrow> bool" where
  "raises r = (case r of Inl e \<Rightarrow> True | Inr v \<Rightarrow> False)"

text \<open>
  What follows the call inside the \<^verbatim>\<open>try\<close>, from the count of expected returns to
  \<^verbatim>\<open>return tuple(new_result)\<close>: the buffer at the end, and the normalised result or the
  exception.
\<close>

definition check_result ::
  "env \<Rightarrow> pyfunc \<Rightarrow> bool \<Rightarrow> pystr list \<Rightarrow> string \<Rightarrow> string list option \<Rightarrow> string \<Rightarrow> pyval
     \<Rightarrow> string \<times> (exn + pyval)" where
  "check_result E f debug adjusted_return_types wrapped_name return_names buffer result =
     (if length adjusted_return_types = 0 then
        (if result = VNone then (buffer, Inr (VTuple [VNone]))
         else (buffer, Inl (AssertionError (wrapped_name
                 @ '': Return value is not None, but no return type specified.'' @ nl
                 @ code_origin_loc f))))
      else
        let result1 = as_tuple result in
        if length result1 \<noteq> length adjusted_return_types then
          (buffer, Inl (arity_error f wrapped_name (length result1) (length adjusted_return_types)))
        else
          let buffer1 = buffer @ none_warnings 0 result1;
              new_result = map (all_to Cpu) result1
          in case verify_results E f debug adjusted_return_types return_names 0 result1 buffer1 of
               (buffer2, Inl e) \<Rightarrow> (buffer2, Inl e)
             | (buffer2, Inr u) \<Rightarrow> (buffer2, Inr (VTuple new_result)))"

text \<open>One round of the \<^verbatim>\<open>try\<close> block: call number \<^verbatim>\<open>n\<close> of the function with a new buffer.\<close>

definition attempt ::
  "env \<Rightarrow> pyfunc \<Rightarrow> pyval list \<Rightarrow> (string \<times> pyval) list \<Rightarrow> bool \<Rightarrow> pystr list \<Rightarrow> string
     \<Rightarrow> string list option \<Rightarrow> nat \<Rightarrow> string \<times> (exn + pyval)" where
  "attempt E f args kwargs debug adjusted_return_types wrapped_name return_names n =
     (case fn_body f n args kwargs of
        (out, Inl e) \<Rightarrow> (out, Inl e)
      | (out, Inr result) \<Rightarrow>
          check_result E f debug adjusted_return_types wrapped_name return_names out result)"

text \<open>
  The loop \<^verbatim>\<open>while try_count < max_tries\<close>. The list of hook calls made so far is carried
  along and returned beside the result. An exception that is not an \<^verbatim>\<open>Exception\<close>
  passes the handler; on the last try the exception is raised again; otherwise the hook,
  when one is set, is called with the function, the exception, the input descriptions and
  the buffer, and an exception of the hook ends the loop. The statement after the loop
  is the assertion that always fails.
\<close>

function retry_loop ::
  "env \<Rightarrow> pyfunc \<Rightarrow> pyval list \<Rightarrow> (string \<times> pyval) list \<Rightarrow> bool \<Rightarrow> string list \<Rightarrow> pystr list
     \<Rightarrow> string \<Rightarrow> string list option \<Rightarrow> int \<Rightarrow> hook_call list
     \<Rightarrow> hook_call list \<times> (exn + pyval)" where
  "retry_loop E f args kwargs debug input_desc adjusted_return_types wrapped_name return_names
       try_count calls =
     (if try_count < max_tries E then
        (case attempt E f args kwargs debug adjusted_return_types wrapped_name return_names
                (nat try_count) of
           (buffer, Inr v) \<Rightarrow> (calls, Inr v)
         | (buffer, Inl e) \<Rightarrow>
             if \<not> is_Exception e then (calls, Inl e)
             else if try_count + 1 = max_tries E then (calls, Inl e)
             else
               (case process_exception_logic E of
                  None \<Rightarrow>
                    retry_loop E f args kwargs debug input_desc adjusted_return_types
                      wrapped_name return_names (try_count + 1) calls
                | Some hook \<Rightarrow>
                    (case hook (f, e, input_desc, buffer) of
                       Some e' \<Rightarrow> (calls @ [(f, e, input_desc, buffer)], Inl e')
                     | None \<Rightarrow>
                         retry_loop E f args kwargs debug input_desc adjusted_return_types
                           wrapped_name return_names (try_count + 1)
                           (calls @ [(f, e, input_desc, buffer)]))))
      else (calls, Inl (AssertionError ''Should never reach this point'')))"
  by pat_completeness auto
termination
  by (relation "measure (\<lambda>(E, f, args, kwargs, debug, input_desc, adjusted_return_types,
        wrapped_name, return_names, try_count, calls). nat (max_tries E - try_count))") auto

declare retry_loop.simps [simp del]

definition call_function_and_verify_result ::
  "env \<Rightarrow> pyfunc \<Rightarrow> pyval list \<Rightarrow> (string \<times> pyval) list \<Rightarrow> bool \<Rightarrow> string list \<Rightarrow> pystr list
     \<Rightarrow> string \<Rightarrow> string list option \<Rightarrow> hook_call list \<times> (exn + pyval)" where
  "call_function_and_verify_result E func args kwargs debug input_desc adjusted_return_types
       wrapped_name return_names =
     retry_loop E func args kwargs debug input_desc adjusted_return_types wrapped_name
       return_names 0 []"

section \<open>Dictionaries and strings\<close>

text \<open>
  A Python dictionary whose order or values matter is the list of its items in insertion
  order: \<^verbatim>\<open>d[k] = v\<close> replaces the value of a key in place and appends a new key.
\<close>

fun dict_set :: "'k \<Rightarrow> 'v \<Rightarrow> ('k \<times> 'v) list \<Rightarrow> ('k \<times> 'v) list" where
  "dict_set k v [] = [(k, v)]"
| "dict_set k v ((k', v') # d) = (if k' = k then (k, v) # d else (k', v') # dict_set k v d)"

definition dict_keys :: "('k \<times> 'v) list \<Rightarrow> 'k list" where
  "dict_keys d = map fst d"

definition dict_values :: "('k \<times> 'v) list \<Rightarrow> 'v list" where
  "dict_values d = map snd d"

text \<open>\<^verbatim>\<open>s.split(sep)\<close> for a separator of one character.\<close>

fun split_on :: "char \<Rightarrow> string \<Rightarrow> string list" where
  "split_on sep [] = [[]]"
| "split_on sep (c # cs) =
     (if c = sep then [] # split_on sep cs
      else case split_on sep cs of [] \<Rightarrow> [[c]] | w # ws \<Rightarrow> (c # w) # ws)"

text \<open>\<^verbatim>\<open>s.title()\<close> and \<^verbatim>\<open>s.strip()\<close>, for ASCII text.\<close>

definition lower_letters :: string where
  "lower_letters = ''abcdefghijklmnopqrstuvwxyz''"

definition upper_letters :: string where
  "upper_letters = ''ABCDEFGHIJKLMNOPQRSTUVWXYZ''"

definition to_upper :: "char \<Rightarrow> char" where
  "to_upper c = (case map_of (zip lower_letters upper_letters) c of None \<Rightarrow> c | Some u \<Rightarrow> u)"

definition to_lower :: "char \<Rightarrow> char" where
  "to_lower c = (case map_of (zip upper_letters lower_letters) c of None \<Rightarrow> c | Some l \<Rightarrow> l)"

fun title_from :: "bool \<Rightarrow> string \<Rightarrow> string" where
  "title_from previous_is_cased [] = []"
| "title_from previous_is_cased (c # cs) =
     (if c \<in> set lower_letters
      then (if previous_is_cased then c else to_upper c) # title_from True cs
      else if c \<in> set upper_letters
      then (if previous_is_cased then to_lower c else c) # title_from True cs
      else c # title_from False cs)"

definition title :: "string \<Rightarrow> string" where
  "title s = title_from False s"

definition is_space :: "char \<Rightarrow> bool" where
  "is_space c = (c \<in> set [CHR 0x09, CHR 0x0A, CHR 0x0B, CHR 0x0C, CHR 0x0D,
                            CHR 0x1C, CHR 0x1D, CHR 0x1E, CHR 0x1F, CHR 0x20])"

definition strip :: "string \<Rightarrow> string" where
  "strip s = rev (dropWhile is_space (rev (dropWhile is_space s)))"

section \<open>Inferring the schema from a signature\<close>

definition string_to_dict :: "string_input \<Rightarrow> (string \<times> meta_value) list" where
  "string_to_dict s =
     [(''default'', MText (si_value s)),
      (''multiline'', MBool (si_multiline s)),
      (''display'', MText ''input''),
      (''forceInput'', MBool (si_force_input s))]"

definition number_to_dict :: "number_input \<Rightarrow> (string \<times> meta_value) list" where
  "number_to_dict n =
     [(''default'', MNumber (ni_default n)), (''display'', MText (ni_display n))]
     @ (case ni_min n of None \<Rightarrow> [] | Some v \<Rightarrow> [(''min'', MNumber v)])
     @ (case ni_max n of None \<Rightarrow> [] | Some v \<Rightarrow> [(''max'', MNumber v)])
     @ (case ni_step n of None \<Rightarrow> [] | Some v \<Rightarrow> [(''step'', MNumber v)])
     @ (case ni_round n of None \<Rightarrow> [] | Some v \<Rightarrow> [(''round'', MNumber v)])"

text \<open>\<^verbatim>\<open>_annotate_input\<close>: the schema entry, whether it is optional, whether it is hidden.\<close>

definition default_force_input :: "type_registry \<Rightarrow> annot \<Rightarrow> bool" where
  "default_force_input T annotation =
     (case DEFAULT_FORCE_INPUT T (get_fully_qualified_name annotation) of
        None \<Rightarrow> False | Some b \<Rightarrow> b)"

definition annotate_input ::
  "type_registry \<Rightarrow> annot \<Rightarrow> default_value \<Rightarrow> input_spec \<times> bool \<times> bool" where
  "annotate_input T annotation dflt =
     (let type_name = get_type_str T annotation;
          forced = (\<lambda>metadata. if default_force_input T annotation
                              then dict_set ''forceInput'' (MBool True) metadata else metadata)
      in case dflt of
           DefaultChoice choices \<Rightarrow> (ChoiceInput choices, False, False)
         | DefaultStringInput si \<Rightarrow>
             (TypedInput type_name (string_to_dict si), si_optional si, si_hidden si)
         | DefaultNumberInput ni \<Rightarrow>
             (TypedInput type_name (number_to_dict ni), ni_optional ni, ni_hidden ni)
         | DefaultNone \<Rightarrow>
             (TypedInput type_name
                (forced [(''optional'', MBool True), (''forceInput'', MBool True)]), True, False)
         | NoDefault \<Rightarrow>
             (TypedInput type_name (forced [(''forceInput'', MBool True)]), False, False)
         | DefaultValue v \<Rightarrow>
             (TypedInput type_name (forced [(''default'', MDefault v)]), True, False))"

datatype hidden_spec = HiddenTag string | HiddenParam input_spec

record schema =
  required_of :: "(string \<times> input_spec) list"
  hidden_of :: "(string \<times> hidden_spec) list"
  optional_of :: "(string \<times> input_spec) list"
  is_list_of :: "(string \<times> bool) list"
  type_of :: "(string \<times> annot) list"

fun origin_is_list :: "annot \<Rightarrow> bool" where
  "origin_is_list (GenericList a) = True"
| "origin_is_list a = False"

text \<open>The loop of \<^verbatim>\<open>_infer_input_types_from_annotations\<close> over the parameters.\<close>

fun infer_inputs_loop ::
  "type_registry \<Rightarrow> (string \<times> annot \<times> default_value) list \<Rightarrow> schema \<Rightarrow> schema" where
  "infer_inputs_loop T [] S = S"
| "infer_inputs_loop T ((param_name, annotation, dflt) # params) S =
     (let S1 = S\<lparr>is_list_of := dict_set param_name (origin_is_list annotation) (is_list_of S),
                 type_of := dict_set param_name annotation (type_of S)\<rparr>
      in case annotate_input T annotation dflt of
           (the_param, is_optional, is_hidden) \<Rightarrow>
             infer_inputs_loop T params
               (if param_name = ''unique_id''
                then S1\<lparr>hidden_of := dict_set param_name (HiddenTag ''UNIQUE_ID'') (hidden_of S1)\<rparr>
                else if param_name = ''extra_pnginfo''
                then S1\<lparr>hidden_of := dict_set param_name (HiddenTag ''EXTRA_PNGINFO'') (hidden_of S1)\<rparr>
                else if \<not> is_optional
                then S1\<lparr>required_of := dict_set param_name the_param (required_of S1)\<rparr>
                else if is_hidden
                then S1\<lparr>hidden_of := dict_set param_name (HiddenParam the_param) (hidden_of S1)\<rparr>
                else S1\<lparr>optional_of := dict_set param_name the_param (optional_of S1)\<rparr>))"

definition infer_input_types_from_annotations ::
  "type_registry \<Rightarrow> pyfunc \<Rightarrow> bool \<Rightarrow> bool \<Rightarrow> exn + schema" where
  "infer_input_types_from_annotations T func skip_first debug =
     (if skip_first \<and> debug \<and> fn_params func = [] then Inl (IndexError ''list index out of range'')
      else Inr (infer_inputs_loop T
                  (if skip_first then drop 1 (fn_params func) else fn_params func)
                  \<lparr>required_of = [], hidden_of = [], optional_of = [], is_list_of = [],
                   type_of = []\<rparr>))"

text \<open>
  \<^verbatim>\<open>_infer_return_types_from_annotations\<close>: for a list of types given to the decorator
  (\<^verbatim>\<open>Inl\<close>) or for the return annotation of the function (\<^verbatim>\<open>Inr\<close>), the host tags and
  the list flags.
\<close>

fun return_slot :: "type_registry \<Rightarrow> annot \<Rightarrow> pystr \<times> bool" where
  "return_slot T (GenericList list_arg) = (get_type_str T list_arg, True)"
| "return_slot T arg = (get_type_str T arg, False)"

fun infer_from_annotation :: "type_registry \<Rightarrow> annot \<Rightarrow> (pystr \<times> bool) list" where
  "infer_from_annotation T (GenericTuple return_args) = map (return_slot T) return_args"
| "infer_from_annotation T (GenericList a) = [(get_type_str T a, True)]"
| "infer_from_annotation T return_annotation =
     (if return_annotation \<noteq> empty_annot then [(get_type_str T return_annotation, False)] else [])"

definition infer_return_types_from_annotations ::
  "type_registry \<Rightarrow> annot list + pyfunc \<Rightarrow> pystr list \<times> bool list" where
  "infer_return_types_from_annotations T func_or_types =
     (let slots = (case func_or_types of
                     Inl types \<Rightarrow> map (return_slot T) types
                   | Inr func \<Rightarrow> infer_from_annotation T (fn_return_annotation func))
      in (map fst slots, map snd slots))"

section \<open>The registries of nodes\<close>

text \<open>
  What the wrapper of a decorated function keeps from its decorator: the function, the
  names and the source location, the schema of the inputs, and the options it reads.
\<close>

record closure =
  cl_func :: pyfunc
  cl_wrapped_name :: string
  cl_code_origin_loc :: string
  cl_required_inputs :: "(string \<times> input_spec) list"
  cl_optional_inputs :: "(string \<times> input_spec) list"
  cl_input_is_list_map :: "(string \<times> bool) list"
  cl_input_type_map :: "(string \<times> annot) list"
  cl_input_is_list :: bool
  cl_is_cls_mth :: bool
  cl_adjusted_return_types :: "pystr list"
  cl_return_names :: "string list option"
  cl_debug :: bool
  cl_has_preview :: bool

datatype binding = PlainFunction | StaticMethod | ClassMethod

text \<open>
  The values of the attributes that \<^verbatim>\<open>_create_comfy_node\<close> sets on a class. The hooks
  \<^verbatim>\<open>validate_inputs\<close> and \<^verbatim>\<open>is_changed\<close> are callables, known here by a name.
\<close>

datatype attr =
    AInputTypes "(string \<times> input_spec) list" "(string \<times> hidden_spec) list"
      "(string \<times> input_spec) list"
  | AText string
  | ATags "pystr list"
  | AFlag bool
  | AFlags "bool list"
  | ANames "string list"
  | AHook string
  | AMethod binding closure

text \<open>
  The mutable globals of the module. A class object is shared by everything that refers
  to it, so the attributes live in a store indexed by the identity of the class, and
  \<^verbatim>\<open>NODE_CLASS_MAPPINGS\<close> holds identities.
\<close>

record module_state =
  already_initialized :: bool
  module_reload_times :: "string \<rightharpoonup> real"
  func_dict :: "string \<rightharpoonup> pyfunc"
  NODE_CLASS_MAPPINGS :: "(string \<times> class_ref) list"
  NODE_DISPLAY_NAME_MAPPINGS :: "(string \<times> string) list"
  class_attrs :: "class_ref \<Rightarrow> (string \<times> attr) list"
  classes_made :: nat

definition initial_state :: module_state where
  "initial_state =
     \<lparr>already_initialized = False, module_reload_times = Map.empty, func_dict = Map.empty,
      NODE_CLASS_MAPPINGS = [], NODE_DISPLAY_NAME_MAPPINGS = [],
      class_attrs = (\<lambda>c. []), classes_made = 0\<rparr>"

text \<open>The arguments of \<^verbatim>\<open>_create_comfy_node\<close>.\<close>

record node_args =
  na_cname :: string
  na_category :: string
  na_node_class :: "class_ref option"
  na_process_function :: attr
  na_display_name :: string
  na_workflow_name :: string
  na_required_inputs :: "(string \<times> input_spec) list"
  na_hidden_inputs :: "(string \<times> hidden_spec) list"
  na_optional_inputs :: "(string \<times> input_spec) list"
  na_input_is_list :: bool
  na_return_types :: "pystr list"
  na_return_names :: "string list option"
  na_output_is_list :: "bool list"
  na_description :: "string option"
  na_is_output_node :: bool
  na_validate_inputs :: "string option"
  na_is_changed :: "string option"
  na_color :: "string option"
  na_source_location :: "string option"
  na_debug :: bool

definition color_error :: exn where
  "color_error = AssertionError ''Color must be a hex color code''"

definition none_plus_str :: exn where
  "none_plus_str = TypeError (''unsupported operand type(s) for +=: '' @ quote @ ''NoneType''
                     @ quote @ '' and '' @ quote @ ''str'' @ quote)"

text \<open>The three assertions on the colour, then \<^verbatim>\<open>description += ...\<close>.\<close>

definition add_color :: "env \<Rightarrow> string option \<Rightarrow> string option \<Rightarrow> exn + string option" where
  "add_color E color description =
     (case color of
        None \<Rightarrow> Inr description
      | Some c \<Rightarrow>
          if \<not> (c \<noteq> [] \<and> hd c = CHR ''#'') then Inl color_error
          else if length c \<noteq> 7 then Inl color_error
          else if \<not> list_all (\<lambda>x. x \<in> set ''0123456789ABCDEF'') (tl c) then Inl color_error
          else (case description of
                  None \<Rightarrow> Inl none_plus_str
                | Some d \<Rightarrow> Inr (Some (d @ color_directive E c))))"

definition add_source :: "string option \<Rightarrow> string option \<Rightarrow> exn + string option" where
  "add_source source_location description =
     (case source_location of
        None \<Rightarrow> Inr description
      | Some loc \<Rightarrow>
          (case description of
             None \<Rightarrow> Inl none_plus_str
           | Some d \<Rightarrow> Inr (Some (d @ nl @ nl @ ''NodeSource='' @ loc))))"

text \<open>The class dictionary, without the entries whose value is \<^verbatim>\<open>None\<close>.\<close>

definition class_dict_of :: "node_args \<Rightarrow> string option \<Rightarrow> (string \<times> attr) list" where
  "class_dict_of A description =
     map (\<lambda>(k, v). (k, the v))
       (filter (\<lambda>(k, v). v \<noteq> None)
          (fold (\<lambda>(k, v). dict_set k v)
             [(''INPUT_TYPES'', Some (AInputTypes (na_required_inputs A) (na_hidden_inputs A)
                                        (na_optional_inputs A))),
              (''CATEGORY'', Some (AText (na_category A))),
              (''RETURN_TYPES'', Some (ATags (na_return_types A))),
              (''FUNCTION'', Some (AText (na_cname A))),
              (''INPUT_IS_LIST'', Some (AFlag (na_input_is_list A))),
              (''OUTPUT_IS_LIST'', Some (AFlags (na_output_is_list A))),
              (''OUTPUT_NODE'', Some (AFlag (na_is_output_node A))),
              (''RETURN_NAMES'', map_option ANames (na_return_names A)),
              (''VALIDATE_INPUTS'', map_option AHook (na_validate_inputs A)),
              (''IS_CHANGED'', map_option AHook (na_is_changed A)),
              (''DESCRIPTION'', map_option AText description),
              (na_cname A, Some (na_process_function A))]
             []))"

fun class_ref_repr :: "class_ref \<Rightarrow> string" where
  "class_ref_repr (UserClass n) = ''<class '' @ quote @ n @ quote @ ''>''"
| "class_ref_repr (NewClass i n) = ''<class '' @ quote @ ''comfy_annotations.'' @ n @ quote @ ''>''"

text \<open>
  \<^verbatim>\<open>_create_comfy_node\<close>. While \<^verbatim>\<open>already_initialized\<close> is unset the three assertions
  guard the registries. Then the attributes are set on the class of the function, or a
  new class is made, and both mappings are written at the workflow name.
\<close>

definition create_comfy_node :: "env \<Rightarrow> node_args \<Rightarrow> module_state \<Rightarrow> exn + module_state" where
  "create_comfy_node E A M =
     (case add_color E (na_color A) (na_description A) of
        Inl e \<Rightarrow> Inl e
      | Inr description1 \<Rightarrow>
     (case add_source (na_source_location A) description1 of
        Inl e \<Rightarrow> Inl e
      | Inr description2 \<Rightarrow>
          let class_dict = class_dict_of A description2 in
          if \<not> already_initialized M
             \<and> na_workflow_name A \<in> set (dict_keys (NODE_CLASS_MAPPINGS M))
          then Inl (AssertionError (''Node class '' @ quote @ na_workflow_name A @ '' (''
                      @ na_cname A @ '')'' @ quote @ '' already exists!''))
          else if \<not> already_initialized M
             \<and> na_display_name A \<in> set (dict_values (NODE_DISPLAY_NAME_MAPPINGS M))
          then Inl (AssertionError (''Display name '' @ quote @ na_display_name A @ quote
                      @ '' already exists!''))
          else if \<not> already_initialized M
             \<and> (case na_node_class A of
                   None \<Rightarrow> False
                 | Some c \<Rightarrow> c \<in> set (dict_values (NODE_CLASS_MAPPINGS M)))
          then Inl (AssertionError (''Only one method from '' @ quote
                      @ (case na_node_class A of None \<Rightarrow> ''None'' | Some c \<Rightarrow> class_ref_repr c)
                      @ '' can be used as a ComfyUI node.'' @ quote))
          else
            let (node_class, M1) =
                  (case na_node_class A of
                     Some c \<Rightarrow>
                       (c, M\<lparr>class_attrs := (class_attrs M)
                               (c := fold (\<lambda>(k, v). dict_set k v) class_dict (class_attrs M c))\<rparr>)
                   | None \<Rightarrow>
                       (NewClass (classes_made M) (na_workflow_name A),
                        M\<lparr>class_attrs := (class_attrs M)
                            (NewClass (classes_made M) (na_workflow_name A) := class_dict),
                          classes_made := Suc (classes_made M)\<rparr>))
            in Inr (M1\<lparr>NODE_CLASS_MAPPINGS :=
                          dict_set (na_workflow_name A) node_class (NODE_CLASS_MAPPINGS M1),
                        NODE_DISPLAY_NAME_MAPPINGS :=
                          dict_set (na_workflow_name A) (na_display_name A)
                            (NODE_DISPLAY_NAME_MAPPINGS M1)\<rparr>)))"

section \<open>The decorator\<close>

text \<open>The arguments of \<^verbatim>\<open>ComfyFunc\<close>.\<close>

record options =
  opt_category :: string
  opt_display_name :: "string option"
  opt_workflow_name :: "string option"
  opt_description :: "string option"
  opt_is_output_node :: bool
  opt_return_types :: "annot list option"
  opt_return_names :: "string list option"
  opt_validate_inputs :: "string option"
  opt_is_changed :: "string option"
  opt_has_preview :: bool
  opt_debug :: bool
  opt_color :: "string option"
  opt_automatic_debugging :: bool

text \<open>
  \<^verbatim>\<open>_get_node_class\<close>: the class named by the last but one part of the qualified name,
  looked up in the globals of this module and then in those of the function.
\<close>

definition get_node_class :: "env \<Rightarrow> pyfunc \<Rightarrow> class_ref option" where
  "get_node_class E func =
     (let split_name = split_on (CHR ''.'') (fn_qualname func) in
      if 1 < length split_name then
        (let class_name = split_name ! (length split_name - 2) in
         case module_globals E class_name of
           Some c \<Rightarrow> Some c
         | None \<Rightarrow> fn_globals func class_name)
      else None)"

definition is_static_method :: "env \<Rightarrow> class_ref option \<Rightarrow> string \<Rightarrow> bool" where
  "is_static_method E cls a = (case cls of None \<Rightarrow> False | Some c \<Rightarrow> is_staticmethod E c a)"

definition is_class_method :: "env \<Rightarrow> class_ref option \<Rightarrow> string \<Rightarrow> bool" where
  "is_class_method E cls a = (case cls of None \<Rightarrow> False | Some c \<Rightarrow> is_classmethod E c a)"

text \<open>A string or a list is true when it is neither \<^verbatim>\<open>None\<close> nor empty.\<close>

definition truthy :: "'a list option \<Rightarrow> bool" where
  "truthy x = (case x of None \<Rightarrow> False | Some v \<Rightarrow> v \<noteq> [])"

definition the_description_of :: "env \<Rightarrow> options \<Rightarrow> pyfunc \<Rightarrow> string" where
  "the_description_of E opts func =
     (case opt_description opts of
        Some d \<Rightarrow> d
      | None \<Rightarrow>
          if docstring_mode E \<noteq> NONE \<and> truthy (fn_doc func) then
            (let d = strip (the (fn_doc func)) in
             if docstring_mode E = BRIEF
             then (case split_on (CHR 0x0A) d of [] \<Rightarrow> [] | first # others \<Rightarrow> first)
             else d)
          else [])"

text \<open>
  The check of the output names. Its message takes \<^verbatim>\<open>len(return_types)\<close> of the
  decorator's argument, which is \<^verbatim>\<open>None\<close> when the types come from the annotation.
\<close>

definition check_return_names :: "options \<Rightarrow> pystr list \<Rightarrow> exn + unit" where
  "check_return_names opts adjusted_return_types =
     (if truthy (opt_return_names opts)
         \<and> length (the (opt_return_names opts)) \<noteq> length adjusted_return_types
      then (case opt_return_types opts of
              None \<Rightarrow> Inl (TypeError (''object of type '' @ quote @ ''NoneType'' @ quote
                              @ '' has no len()''))
            | Some ts \<Rightarrow>
                Inl (AssertionError
                  (''Number of output names must match number of return types. Got ''
                   @ show_nat (length (the (opt_return_names opts))) @ '' names and ''
                   @ show_nat (length ts) @ '' return types.'')))
      else Inr ())"

text \<open>
  The names derived from the name of the function, and the return types: those given
  to the decorator, or those of the return annotation.
\<close>

definition name_parts_of :: "pyfunc \<Rightarrow> string list" where
  "name_parts_of func = map title (split_on (CHR ''_'') (fn_name func))"

definition display_name_of :: "options \<Rightarrow> pyfunc \<Rightarrow> string" where
  "display_name_of opts func =
     (if truthy (opt_display_name opts) then the (opt_display_name opts)
      else join '' '' (name_parts_of func))"

definition workflow_name_of :: "options \<Rightarrow> pyfunc \<Rightarrow> string" where
  "workflow_name_of opts func =
     (if truthy (opt_workflow_name opts) then the (opt_workflow_name opts)
      else join [] (name_parts_of func))"

definition return_types_of :: "type_registry \<Rightarrow> options \<Rightarrow> pyfunc \<Rightarrow> pystr list \<times> bool list" where
  "return_types_of T opts func =
     (case opt_return_types opts of
        Some ts \<Rightarrow> infer_return_types_from_annotations T (Inl ts)
      | None \<Rightarrow> infer_return_types_from_annotations T (Inr func))"

text \<open>
  \<^verbatim>\<open>ComfyFunc(...)(func)\<close>: the schema is inferred, the wrapper is built and the node
  is registered. \<^verbatim>\<open>force_output\<close> promotes a node with no return type to an output node.
\<close>

definition decorator ::
  "env \<Rightarrow> type_registry \<Rightarrow> options \<Rightarrow> pyfunc \<Rightarrow> module_state \<Rightarrow> exn + module_state" where
  "decorator E T opts func M =
     (let wrapped_name = fn_qualname func @ ''_comfyfunc_wrapper'';
          source_location = fn_filename func @ '':'' @ show_nat (fn_firstlineno func);
          origin = nl @ '' Source: '' @ fn_qualname func @ '' '' @ source_location;
          node_class = get_node_class E func;
          is_static = is_static_method E node_class (fn_name func);
          is_cls_mth = is_class_method E node_class (fn_name func);
          is_member = (node_class \<noteq> None \<and> \<not> is_static \<and> \<not> is_cls_mth)
      in case infer_input_types_from_annotations T func is_member (opt_debug opts) of
           Inl e \<Rightarrow> Inl e
         | Inr S \<Rightarrow>
             (case return_types_of T opts func of
                (adjusted_return_types, output_is_list) \<Rightarrow>
                  (case check_return_names opts adjusted_return_types of
                     Inl e \<Rightarrow> Inl e
                   | Inr u \<Rightarrow>
                       let force_output = (length adjusted_return_types = 0);
                           input_is_list = list_ex (\<lambda>b. b) (dict_values (is_list_of S));
                           wrapper_closure =
                             \<lparr>cl_func = func, cl_wrapped_name = wrapped_name,
                              cl_code_origin_loc = origin,
                              cl_required_inputs = required_of S,
                              cl_optional_inputs = optional_of S,
                              cl_input_is_list_map = is_list_of S,
                              cl_input_type_map = type_of S,
                              cl_input_is_list = input_is_list,
                              cl_is_cls_mth = is_cls_mth,
                              cl_adjusted_return_types = adjusted_return_types,
                              cl_return_names = opt_return_names opts,
                              cl_debug = opt_debug opts,
                              cl_has_preview = opt_has_preview opts\<rparr>;
                           bound = (if is_cls_mth then ClassMethod
                                    else if node_class = None \<or> is_static then StaticMethod
                                    else PlainFunction)
                       in create_comfy_node E
                            \<lparr>na_cname = wrapped_name,
                             na_category = opt_category opts,
                             na_node_class = node_class,
                             na_process_function = AMethod bound wrapper_closure,
                             na_display_name = display_name_of opts func,
                             na_workflow_name = workflow_name_of opts func,
                             na_required_inputs = required_of S,
                             na_hidden_inputs = hidden_of S,
                             na_optional_inputs = optional_of S,
                             na_input_is_list = input_is_list,
                             na_return_types = adjusted_return_types,
                             na_return_names = opt_return_names opts,
                             na_output_is_list = output_is_list,
                             na_description = Some (the_description_of E opts func),
                             na_is_output_node = (opt_is_output_node opts \<or> force_output),
                             na_validate_inputs = opt_validate_inputs opts,
                             na_is_changed = opt_is_changed opts,
                             na_color = opt_color opts,
                             na_source_location = Some source_location,
                             na_debug = opt_debug opts\<rparr>
                            M)))"

section \<open>The wrapper\<close>

definition get_device :: "env \<Rightarrow> device" where
  "get_device E = (if cuda_available E then Cuda else Cpu)"

text \<open>\<^verbatim>\<open>arg.unsqueeze(0)\<close> puts an axis of length one in front.\<close>

definition unsqueeze0 :: "tensor \<Rightarrow> tensor" where
  "unsqueeze0 t = t\<lparr>shape := 1 # shape t\<rparr>"

definition no_attribute :: "pyval \<Rightarrow> string \<Rightarrow> exn" where
  "no_attribute v a =
     AttributeError (quote @ class_name v @ quote @ '' object has no attribute '' @ quote @ a @ quote)"

text \<open>
  The promotion of a mask: for a key of \<^verbatim>\<open>required_inputs\<close> whose entry starts with
  \<^verbatim>\<open>"MASK"\<close>, \<^verbatim>\<open>arg.shape\<close> is read, which only a tensor has here.
\<close>

definition promote_mask :: "closure \<Rightarrow> string \<Rightarrow> pyval \<Rightarrow> exn + pyval" where
  "promote_mask C key arg =
     (if has_tag (cl_required_inputs C) key ''MASK'' then
        (case arg of
           VTensor t \<Rightarrow> if length (shape t) = 2 then Inr (VTensor (unsqueeze0 t)) else Inr arg
         | _ \<Rightarrow> Inl (no_attribute arg ''shape''))
      else Inr arg)"

text \<open>\<^verbatim>\<open>[cls(el) for el in arg]\<close>\<close>

fun construct_each :: "env \<Rightarrow> annot \<Rightarrow> pyval list \<Rightarrow> exn + pyval list" where
  "construct_each E cls [] = Inr []"
| "construct_each E cls (el # els) =
     (case construct E cls el of
        Inl e \<Rightarrow> Inl e
      | Inr v \<Rightarrow> (case construct_each E cls els of Inl e \<Rightarrow> Inl e | Inr vs \<Rightarrow> Inr (v # vs)))"

definition autoconvert :: "env \<Rightarrow> type_registry \<Rightarrow> closure \<Rightarrow> string \<Rightarrow> pyval \<Rightarrow> exn + pyval" where
  "autoconvert E T C key arg =
     (if key \<in> set (dict_keys (cl_required_inputs C)) \<union> set (dict_keys (cl_optional_inputs C)) then
        (case map_of (cl_input_type_map C) key of
           None \<Rightarrow> Inl (KeyError key)
         | Some cls \<Rightarrow>
             if (case SHOULD_AUTOCONVERT T (get_fully_qualified_name cls) of
                   None \<Rightarrow> False | Some b \<Rightarrow> b)
             then (case arg of
                     VList els \<Rightarrow>
                       (case construct_each E cls els of Inl e \<Rightarrow> Inl e | Inr vs \<Rightarrow> Inr (VList vs))
                   | _ \<Rightarrow> construct E cls arg)
             else Inr arg)
      else Inr arg)"

text \<open>The qualified name of the class of a value, and the line added to \<^verbatim>\<open>input_desc\<close>.\<close>

definition type_fqn :: "pyval \<Rightarrow> string" where
  "type_fqn v = class_module v @ ''.'' @ class_name v"

definition describe :: "env \<Rightarrow> string \<Rightarrow> pyval \<Rightarrow> exn + string" where
  "describe E key arg =
     (case arg of
        VTensor t \<Rightarrow>
          (case image_info E t of
             Inl e \<Rightarrow> Inl e
           | Inr info \<Rightarrow> Inr (key @ '' ('' @ type_fqn arg @ ''): '' @ info))
      | _ \<Rightarrow> Inr (key @ '' ('' @ type_fqn arg @ ''): '' @ py_str E arg))"

text \<open>
  One round of the first loop of the wrapper over \<^verbatim>\<open>kwargs.items()\<close>: the new value of
  the argument and its description.
\<close>

definition coerce_arg ::
  "env \<Rightarrow> type_registry \<Rightarrow> closure \<Rightarrow> string \<Rightarrow> pyval \<Rightarrow> exn + pyval \<times> string" where
  "coerce_arg E T C key arg =
     (case promote_mask C key (all_to (get_device E) arg) of
        Inl e \<Rightarrow> Inl e
      | Inr arg1 \<Rightarrow>
     (case autoconvert E T C key arg1 of
        Inl e \<Rightarrow> Inl e
      | Inr arg2 \<Rightarrow>
     (case describe E key arg2 of
        Inl e \<Rightarrow> Inl e
      | Inr desc \<Rightarrow>
     (case verify_tensor_type E key arg2 (cl_required_inputs C) (cl_optional_inputs C)
             (quote @ key @ quote) of
        Inl e \<Rightarrow>
          if is_Exception e
          then Inl (ValueError (''Error verifying INPUT tensor '' @ exn_str e @ nl
                      @ cl_code_origin_loc C))
          else Inl e
      | Inr v \<Rightarrow> Inr (arg2, desc)))))"

text \<open>
  The loop itself. The keys of a dictionary are distinct, so writing \<^verbatim>\<open>kwargs[key]\<close>
  while iterating replaces each value where it stands.
\<close>

fun coerce_kwargs ::
  "env \<Rightarrow> type_registry \<Rightarrow> closure \<Rightarrow> (string \<times> pyval) list
     \<Rightarrow> exn + (string \<times> pyval) list \<times> string list" where
  "coerce_kwargs E T C [] = Inr ([], [])"
| "coerce_kwargs E T C ((key, arg) # rest) =
     (case coerce_arg E T C key arg of
        Inl e \<Rightarrow> Inl e
      | Inr (arg', desc) \<Rightarrow>
          (case coerce_kwargs E T C rest of
             Inl e \<Rightarrow> Inl e
           | Inr (kwargs', input_desc) \<Rightarrow> Inr ((key, arg') # kwargs', desc # input_desc)))"

text \<open>\<^verbatim>\<open>len(v)\<close> and \<^verbatim>\<open>v[0]\<close>.\<close>

definition no_len :: "pyval \<Rightarrow> exn" where
  "no_len v = TypeError (''object of type '' @ quote @ class_name v @ quote @ '' has no len()'')"

fun py_len :: "pyval \<Rightarrow> exn + nat" where
  "py_len (VList xs) = Inr (length xs)"
| "py_len (VTuple xs) = Inr (length xs)"
| "py_len (VStr s) = Inr (length s)"
| "py_len (VTensor t) =
     (case shape t of [] \<Rightarrow> Inl (TypeError ''len() of a 0-d tensor'') | n # ns \<Rightarrow> Inr n)"
| "py_len v = Inl (no_len v)"

definition not_subscriptable :: "pyval \<Rightarrow> exn" where
  "not_subscriptable v = TypeError (quote @ class_name v @ quote @ '' object is not subscriptable'')"

fun py_first :: "pyval \<Rightarrow> exn + pyval" where
  "py_first (VList xs) =
     (case xs of [] \<Rightarrow> Inl (IndexError ''list index out of range'') | x # rest \<Rightarrow> Inr x)"
| "py_first (VTuple xs) =
     (case xs of [] \<Rightarrow> Inl (IndexError ''tuple index out of range'') | x # rest \<Rightarrow> Inr x)"
| "py_first (VStr s) =
     (case s of [] \<Rightarrow> Inl (IndexError ''string index out of range'') | c # rest \<Rightarrow> Inr (VStr [c]))"
| "py_first (VTensor t) =
     (case shape t of
        [] \<Rightarrow> Inl (IndexError ''invalid index of a 0-dim tensor'')
      | n # ns \<Rightarrow>
          if n = 0 then Inl (IndexError ''index 0 is out of bounds for dimension 0 with size 0'')
          else Inr (VTensor (t\<lparr>shape := ns, elems := take (prod_list ns) (elems t)\<rparr>)))"
| "py_first v = Inl (not_subscriptable v)"

text \<open>
  The second loop, run when the schema is in list mode: an argument whose parameter is
  not declared as a list must have length one and is replaced by its first element.
  With \<^verbatim>\<open>debug\<close> set the length of every argument is printed first.
\<close>

fun unwrap_lists :: "closure \<Rightarrow> (string \<times> pyval) list \<Rightarrow> exn + (string \<times> pyval) list" where
  "unwrap_lists C [] = Inr []"
| "unwrap_lists C ((arg_name, v) # rest) =
     (case (if cl_debug C then py_len v else Inr 0) of
        Inl e \<Rightarrow> Inl e
      | Inr printed \<Rightarrow>
     (case map_of (cl_input_is_list_map C) arg_name of
        None \<Rightarrow> Inl (KeyError arg_name)
      | Some is_list \<Rightarrow>
     (case (if is_list then Inr v
            else (case py_len v of
                    Inl e \<Rightarrow> Inl e
                  | Inr n \<Rightarrow> if n = 1 then py_first v else Inl (AssertionError []))) of
        Inl e \<Rightarrow> Inl e
      | Inr v' \<Rightarrow>
          (case unwrap_lists C rest of
             Inl e \<Rightarrow> Inl e
           | Inr kwargs' \<Rightarrow> Inr ((arg_name, v') # kwargs')))))"

text \<open>
  \<^verbatim>\<open>_maybe_reload_module\<close>: whether the module was reloaded and the function to call.
  The time of the reload is recorded once the reload has returned, and the reloaded
  function is cached once it has been read from the module. What the reloaded module
  does when it runs again is not part of the model.
\<close>

definition maybe_reload_module ::
  "env \<Rightarrow> pyfunc \<Rightarrow> module_state \<Rightarrow> module_state \<times> (exn + bool \<times> pyfunc)" where
  "maybe_reload_module E func M =
     (let module_name = fn_module func in
      if module_name = [] \<or> \<not> reload_modules E then (M, Inr (False, func))
      else
        (case getmtime E module_name of
           Inl e \<Rightarrow> (M, Inl e)
         | Inr current_modified_time \<Rightarrow>
             if (case module_reload_times M module_name of None \<Rightarrow> 0 | Some t \<Rightarrow> t)
                  < current_modified_time
                \<and> module_hasattr E module_name (fn_name func)
             then
               (case reload_module E module_name of
                  Some e \<Rightarrow> (M, Inl e)
                | None \<Rightarrow>
                    (let M1 = M\<lparr>module_reload_times :=
                                 (module_reload_times M)(module_name \<mapsto> current_modified_time)\<rparr>
                     in case reloaded_attr E module_name (fn_name func) of
                          Inl e \<Rightarrow> (M1, Inl e)
                        | Inr g \<Rightarrow>
                            (M1\<lparr>func_dict := (func_dict M1)(fn_name func \<mapsto> g)\<rparr>,
                             Inr (True, g))))
             else
               (case func_dict M (fn_name func) of
                  Some g \<Rightarrow> (M, Inr (False, g))
                | None \<Rightarrow> (M, Inr (False, func)))))"

text \<open>
  The statements of the wrapper after its two loops: the flag \<^verbatim>\<open>already_initialized\<close>
  is set, the latest function is looked up and called, and the preview is added.
\<close>

definition invoke ::
  "env \<Rightarrow> closure \<Rightarrow> pyval list \<Rightarrow> (string \<times> pyval) list \<Rightarrow> string list \<Rightarrow> module_state
     \<Rightarrow> module_state \<times> hook_call list \<times> (exn + pyval)" where
  "invoke E C args kwargs input_desc M =
     (case maybe_reload_module E (cl_func C) (M\<lparr>already_initialized := True\<rparr>) of
        (M2, Inl e) \<Rightarrow> (M2, [], Inl e)
      | (M2, Inr (reloaded, latest_func)) \<Rightarrow>
          (case call_function_and_verify_result E latest_func args kwargs (cl_debug C)
                  input_desc (cl_adjusted_return_types C) (cl_wrapped_name C)
                  (cl_return_names C) of
             (calls, Inl e) \<Rightarrow> (M2, calls, Inl e)
           | (calls, Inr result) \<Rightarrow>
               if \<not> cl_has_preview C then (M2, calls, Inr result)
               else (M2, calls, add_preview E result)))"

text \<open>
  The wrapper that the host calls: the globals afterwards, the calls of the failure
  hook, and the result or the exception.
\<close>

definition wrapper ::
  "env \<Rightarrow> type_registry \<Rightarrow> closure \<Rightarrow> pyval list \<Rightarrow> (string \<times> pyval) list \<Rightarrow> module_state
     \<Rightarrow> module_state \<times> hook_call list \<times> (exn + pyval)" where
  "wrapper E T C args kwargs M =
     (case coerce_kwargs E T C kwargs of
        Inl e \<Rightarrow> (M, [], Inl e)
      | Inr (kwargs1, input_desc) \<Rightarrow>
          let args1 = (if cl_is_cls_mth C then drop 1 args else args) in
          (case (if cl_input_is_list C then unwrap_lists C kwargs1 else Inr kwargs1) of
             Inl e \<Rightarrow> (M, [], Inl e)
           | Inr kwargs2 \<Rightarrow> invoke E C args1 kwargs2 input_desc M))"

text \<open>
  In list mode the host delivers every argument as a list. An item of \<^verbatim>\<open>kwargs\<close> is
  delivered well when its key is a parameter and its value is a list, of one element
  when the parameter is not declared as a list. An item is unwrapped into another when
  the key is kept and the value, for a parameter not declared as a list, was the list of
  one element holding the new value.
\<close>

fun list_length :: "pyval \<Rightarrow> nat option" where
  "list_length (VList xs) = Some (length xs)"
| "list_length v = None"

definition delivered :: "closure \<Rightarrow> string \<times> pyval \<Rightarrow> bool" where
  "delivered C item =
     (case map_of (cl_input_is_list_map C) (fst item) of
        None \<Rightarrow> False
      | Some is_list \<Rightarrow>
          if is_list then list_length (snd item) \<noteq> None else list_length (snd item) = Some 1)"

definition unwrapped :: "closure \<Rightarrow> string \<times> pyval \<Rightarrow> string \<times> pyval \<Rightarrow> bool" where
  "unwrapped C before after =
     (fst after = fst before
      \<and> (if map_of (cl_input_is_list_map C) (fst before) = Some True then snd after = snd before
          else snd before = VList [snd after]))"

section \<open>Settings and inputs of the examples\<close>

text \<open>
  The settings as the module defines them, on a machine without CUDA, with plain
  stand-ins for what the surroundings print and build.
\<close>

definition default_settings :: env where
  "default_settings =
     \<lparr>verify_tensors = True, max_tries = 1, process_exception_logic = None,
      reload_modules = True, docstring_mode = FULL, cuda_available = False,
      scalar_repr = (\<lambda>x. ''tensor''), py_str = (\<lambda>v. class_name v),
      image_info = (\<lambda>t. Inr (''shape='' @ show_size (shape t))),
      construct = (\<lambda>cls v. Inr v), color_directive = (\<lambda>c. []),
      module_globals = Map.empty, is_staticmethod = (\<lambda>c a. False),
      is_classmethod = (\<lambda>c a. False), getmtime = (\<lambda>m. Inr 0),
      module_hasattr = (\<lambda>m a. False),
      reload_module = (\<lambda>m. None),
      reloaded_attr = (\<lambda>m a. Inl (AttributeError a)), add_preview = (\<lambda>v. Inr v)\<rparr>"

text \<open>
  Settings with three tries and a failure hook that returns, and three functions: one
  that raises on its first two calls and then returns 7, one that returns a pair, and
  one that returns a tensor held by the GPU.
\<close>

definition retry_settings :: env where
  "retry_settings = default_settings\<lparr>max_tries := 3, process_exception_logic := Some (\<lambda>c. None)\<rparr>"

definition flaky :: pyfunc where
  "flaky =
     \<lparr>fn_name = ''flaky'', fn_qualname = ''flaky'', fn_module = ''nodes_demo'',
      fn_filename = ''nodes_demo.py'', fn_firstlineno = 12, fn_doc = None,
      fn_params = [], fn_return_annotation = Class ''builtins'' ''int'',
      fn_globals = Map.empty,
      fn_body = (\<lambda>n args kwargs.
         if n < 2 then (''try'', Inl (UserException ''RuntimeError'' ''not yet''))
         else (''done'', Inr (VInt 7)))\<rparr>"

definition two_values :: pyfunc where
  "two_values =
     \<lparr>fn_name = ''two_values'', fn_qualname = ''two_values'', fn_module = ''nodes_demo'',
      fn_filename = ''nodes_demo.py'', fn_firstlineno = 20, fn_doc = None,
      fn_params = [], fn_return_annotation = Class ''builtins'' ''int'',
      fn_globals = Map.empty,
      fn_body = (\<lambda>n args kwargs. ([], Inr (VTuple [VInt 1, VInt 2])))\<rparr>"

definition gpu_result :: pyfunc where
  "gpu_result =
     \<lparr>fn_name = ''gpu_result'', fn_qualname = ''gpu_result'', fn_module = ''nodes_demo'',
      fn_filename = ''nodes_demo.py'', fn_firstlineno = 30, fn_doc = None,
      fn_params = [], fn_return_annotation = Class ''torch'' ''Tensor'',
      fn_globals = Map.empty,
      fn_body = (\<lambda>n args kwargs.
         ([], Inr (VTensor \<lparr>shape = [2], elems = [3, 4], device = Cuda\<rparr>)))\<rparr>"

text \<open>
  The defaults of \<^verbatim>\<open>ComfyFunc\<close>, a function \<^verbatim>\<open>save_text(text: str)\<close> without a return
  annotation, the arguments of a registration, and the globals after that registration.
\<close>

definition default_options :: options where
  "default_options =
     \<lparr>opt_category = ''ComfyFunc'', opt_display_name = None, opt_workflow_name = None,
      opt_description = None, opt_is_output_node = False, opt_return_types = None,
      opt_return_names = None, opt_validate_inputs = None, opt_is_changed = None,
      opt_has_preview = False, opt_debug = False, opt_color = None,
      opt_automatic_debugging = True\<rparr>"

definition save_text :: pyfunc where
  "save_text =
     \<lparr>fn_name = ''save_text'', fn_qualname = ''save_text'', fn_module = ''nodes_demo'',
      fn_filename = ''nodes_demo.py'', fn_firstlineno = 40, fn_doc = None,
      fn_params = [(''text'', Class ''builtins'' ''str'', NoDefault)],
      fn_return_annotation = empty_annot, fn_globals = Map.empty,
      fn_body = (\<lambda>n args kwargs. ([], Inr VNone))\<rparr>"

definition save_text_closure :: closure where
  "save_text_closure =
     \<lparr>cl_func = save_text, cl_wrapped_name = ''save_text_comfyfunc_wrapper'',
      cl_code_origin_loc = nl @ '' Source: save_text nodes_demo.py:40'',
      cl_required_inputs = [(''text'', TypedInput (Str ''STRING'') [(''forceInput'', MBool True)])],
      cl_optional_inputs = [],
      cl_input_is_list_map = [(''text'', False)],
      cl_input_type_map = [(''text'', Class ''builtins'' ''str'')],
      cl_input_is_list = False, cl_is_cls_mth = False, cl_adjusted_return_types = [],
      cl_return_names = None, cl_debug = False, cl_has_preview = False\<rparr>"

definition save_text_node :: node_args where
  "save_text_node =
     \<lparr>na_cname = ''save_text_comfyfunc_wrapper'', na_category = ''ComfyFunc'',
      na_node_class = None, na_process_function = AMethod StaticMethod save_text_closure,
      na_display_name = ''Save Text'', na_workflow_name = ''SaveText'',
      na_required_inputs = [(''text'', TypedInput (Str ''STRING'') [(''forceInput'', MBool True)])],
      na_hidden_inputs = [], na_optional_inputs = [], na_input_is_list = False,
      na_return_types = [], na_return_names = None, na_output_is_list = [],
      na_description = Some [], na_is_output_node = True, na_validate_inputs = None,
      na_is_changed = None, na_color = None, na_source_location = Some ''nodes_demo.py:40'',
      na_debug = False\<rparr>"

definition registered_once :: module_state where
  "registered_once =
     (case create_comfy_node default_settings save_text_node initial_state of
        Inr M \<Rightarrow> M
      | Inl e \<Rightarrow> initial_state)"

text \<open>
  A function in list mode, \<^verbatim>\<open>repeat(images: list[ImageTensor], steps: int)\<close>, which
  returns its argument \<^verbatim>\<open>steps\<close>, and a function with an optional mask,
  \<^verbatim>\<open>cut(image: ImageTensor, mask: MaskTensor = None)\<close>, which returns its image; each
  with the closure that the decorator builds for it.
\<close>

definition repeat_fn :: pyfunc where
  "repeat_fn =
     \<lparr>fn_name = ''repeat'', fn_qualname = ''repeat'', fn_module = ''nodes_demo'',
      fn_filename = ''nodes_demo.py'', fn_firstlineno = 50, fn_doc = None,
      fn_params = [(''images'', GenericList (Class ''comfy_annotations'' ''ImageTensor''), NoDefault),
                   (''steps'', Class ''builtins'' ''int'', NoDefault)],
      fn_return_annotation = Class ''builtins'' ''int'', fn_globals = Map.empty,
      fn_body = (\<lambda>n args kwargs.
         ([], Inr (case map_of kwargs ''steps'' of None \<Rightarrow> VNone | Some v \<Rightarrow> v)))\<rparr>"

definition repeat_closure :: closure where
  "repeat_closure =
     \<lparr>cl_func = repeat_fn, cl_wrapped_name = ''repeat_comfyfunc_wrapper'',
      cl_code_origin_loc = nl @ '' Source: repeat nodes_demo.py:50'',
      cl_required_inputs =
        [(''images'', TypedInput (Str ''IMAGE'') [(''forceInput'', MBool True)]),
         (''steps'', TypedInput (Str ''INT'') [(''forceInput'', MBool True)])],
      cl_optional_inputs = [],
      cl_input_is_list_map = [(''images'', True), (''steps'', False)],
      cl_input_type_map =
        [(''images'', GenericList (Class ''comfy_annotations'' ''ImageTensor'')),
         (''steps'', Class ''builtins'' ''int'')],
      cl_input_is_list = True, cl_is_cls_mth = False,
      cl_adjusted_return_types = [Str ''INT''],
      cl_return_names = None, cl_debug = False, cl_has_preview = False\<rparr>"

definition pixel :: tensor where
  "pixel = \<lparr>shape = [1, 1, 1, 3], elems = [0, 1 / 2, 1], device = Cpu\<rparr>"

definition cut_fn :: pyfunc where
  "cut_fn =
     \<lparr>fn_name = ''cut'', fn_qualname = ''cut'', fn_module = ''nodes_demo'',
      fn_filename = ''nodes_demo.py'', fn_firstlineno = 60, fn_doc = None,
      fn_params = [(''image'', Class ''comfy_annotations'' ''ImageTensor'', NoDefault),
                   (''mask'', Class ''comfy_annotations'' ''MaskTensor'', DefaultNone)],
      fn_return_annotation = Class ''comfy_annotations'' ''ImageTensor'', fn_globals = Map.empty,
      fn_body = (\<lambda>n args kwargs.
         ([], Inr (case map_of kwargs ''image'' of None \<Rightarrow> VNone | Some v \<Rightarrow> v)))\<rparr>"

definition cut_closure :: closure where
  "cut_closure =
     \<lparr>cl_func = cut_fn, cl_wrapped_name = ''cut_comfyfunc_wrapper'',
      cl_code_origin_loc = nl @ '' Source: cut nodes_demo.py:60'',
      cl_required_inputs = [(''image'', TypedInput (Str ''IMAGE'') [(''forceInput'', MBool True)])],
      cl_optional_inputs =
        [(''mask'', TypedInput (Str ''MASK'')
                     [(''optional'', MBool True), (''forceInput'', MBool True)])],
      cl_input_is_list_map = [(''image'', False), (''mask'', False)],
      cl_input_type_map =
        [(''image'', Class ''comfy_annotations'' ''ImageTensor''),
         (''mask'', Class ''comfy_annotations'' ''MaskTensor'')],
      cl_input_is_list = False, cl_is_cls_mth = False,
      cl_adjusted_return_types = [Str ''IMAGE''],
      cl_return_names = None, cl_debug = False, cl_has_preview = False\<rparr>"

definition flat_mask :: tensor where
  "flat_mask = \<lparr>shape = [2, 2], elems = [0, 1, 1, 0], device = Cpu\<rparr>"

text \<open>
  A function in list mode with a mask that is not a list,
  \<^verbatim>\<open>blend(images: list[ImageTensor], mask: MaskTensor)\<close>, which returns its mask, with
  the closure that the decorator builds for it, and a mask of three axes.
\<close>

definition blend_fn :: pyfunc where
  "blend_fn =
     \<lparr>fn_name = ''blend'', fn_qualname = ''blend'', fn_module = ''nodes_demo'',
      fn_filename = ''nodes_demo.py'', fn_firstlineno = 70, fn_doc = None,
      fn_params = [(''images'', GenericList (Class ''comfy_annotations'' ''ImageTensor''), NoDefault),
                   (''mask'', Class ''comfy_annotations'' ''MaskTensor'', NoDefault)],
      fn_return_annotation = Class ''comfy_annotations'' ''MaskTensor'', fn_globals = Map.empty,
      fn_body = (\<lambda>n args kwargs.
         ([], Inr (case map_of kwargs ''mask'' of None \<Rightarrow> VNone | Some v \<Rightarrow> v)))\<rparr>"

definition blend_closure :: closure where
  "blend_closure =
     \<lparr>cl_func = blend_fn, cl_wrapped_name = ''blend_comfyfunc_wrapper'',
      cl_code_origin_loc = nl @ '' Source: blend nodes_demo.py:70'',
      cl_required_inputs =
        [(''images'', TypedInput (Str ''IMAGE'') [(''forceInput'', MBool True)]),
         (''mask'', TypedInput (Str ''MASK'') [(''forceInput'', MBool True)])],
      cl_optional_inputs = [],
      cl_input_is_list_map = [(''images'', True), (''mask'', False)],
      cl_input_type_map =
        [(''images'', GenericList (Class ''comfy_annotations'' ''ImageTensor'')),
         (''mask'', Class ''comfy_annotations'' ''MaskTensor'')],
      cl_input_is_list = True, cl_is_cls_mth = False,
      cl_adjusted_return_types = [Str ''MASK''],
      cl_return_names = None, cl_debug = False, cl_has_preview = False\<rparr>"

definition full_mask :: tensor where
  "full_mask = \<lparr>shape = [1, 2, 2], elems = [0, 1, 1, 0], device = Cpu\<rparr>"

text \<open>The fixed keys of the class dictionary.\<close>

definition fixed_names :: "string list" where
  "fixed_names =
     [''INPUT_TYPES'', ''CATEGORY'', ''RETURN_TYPES'', ''FUNCTION'', ''INPUT_IS_LIST'',
      ''OUTPUT_IS_LIST'', ''OUTPUT_NODE'', ''RETURN_NAMES'', ''VALIDATE_INPUTS'', ''IS_CHANGED'',
      ''DESCRIPTION'']"

section \<open>Properties\<close>

lemma register_type_keeps_keys:
  "k \<in> dom (ANNOTATION_TO_COMFYUI_TYPE T)
   \<Longrightarrow> k \<in> dom (ANNOTATION_TO_COMFYUI_TYPE (register_type cls n a b f T))"
  by (simp add: register_type_def Let_def)

lemma register_type_adds_key:
  "get_fully_qualified_name cls \<in> dom (ANNOTATION_TO_COMFYUI_TYPE (register_type cls n a b f T))"
  by (simp add: register_type_def Let_def)

text \<open>
  C3. \<^verbatim>\<open>register_type\<close> is first-write-wins: when the qualified name of the type is
  already a key of the registry, a call with any name and any flags returns the registry
  as it was, all three mappings included.
\<close>

theorem register_type_first_write_wins:
  assumes "get_fully_qualified_name cls \<in> dom (ANNOTATION_TO_COMFYUI_TYPE T)"
  shows "register_type cls name should_autoconvert is_auto_register force_input T = T"
  using assms by (simp add: register_type_def)

theorem register_type_first_write_wins_witness:
  "get_fully_qualified_name (Class ''builtins'' ''int'')
     \<in> dom (ANNOTATION_TO_COMFYUI_TYPE initial_registry)
   \<and> register_type (Class ''builtins'' ''int'') (Str ''NUMBER'') True False True initial_registry
       = initial_registry"
proof -
  have h: "get_fully_qualified_name (Class ''builtins'' ''int'')
             \<in> dom (ANNOTATION_TO_COMFYUI_TYPE initial_registry)"
    unfolding initial_registry_def
    by (rule register_type_keeps_keys, rule register_type_keeps_keys,
        rule register_type_keeps_keys, rule register_type_keeps_keys,
        rule register_type_adds_key)
  show ?thesis
    using h register_type_first_write_wins [OF h, of "Str ''NUMBER''" True False True] by simp
qed

text \<open>
  C9. The wildcard never reports a difference: for an instance of \<^verbatim>\<open>AnyType\<close>, and so
  for \<^verbatim>\<open>any_type\<close>, the comparison \<^verbatim>\<open>!=\<close> with a value \<^verbatim>\<open>x\<close> of any type is false, as
  the method and as the operator between strings, and so is \<^verbatim>\<open>s != any_type\<close> for a
  plain string \<^verbatim>\<open>s\<close>.
\<close>

theorem any_type_never_differs:
  "AnyType_ne (AnyType w) (x :: 'a) = False
   \<and> py_ne (AnyType w) y = False
   \<and> py_ne any_type y = False
   \<and> py_ne (Str s) any_type = False"
  by (simp add: any_type_def AnyType_ne_def)

lemma verify_tensor_off:
  "\<not> verify_tensors E \<Longrightarrow> verify_tensor E a n ty s d c = Inr (VBool True)"
  by (induction E a n ty s d c rule: verify_tensor.induct) simp_all

text \<open>
  C10. For a list, \<^verbatim>\<open>_verify_tensor\<close> gives what it gives for the first element with
  \<^verbatim>\<open>tensor_type=""\<close>: the other elements and the declared type play no part, and an
  empty list passes. So a list whose first element is a tensor of three axes passes as
  a MASK output whatever its elements are.
\<close>

theorem verify_tensor_list_checks_first_element_only:
  "verify_tensor E (VList (a # rest)) tensor_name tensor_type allowed_shapes allowed_dims allowed_channels
     = verify_tensor E a tensor_name [] allowed_shapes allowed_dims allowed_channels
   \<and> verify_tensor E (VList []) tensor_name tensor_type allowed_shapes allowed_dims allowed_channels
     = (if verify_tensors E then Inr VNone else Inr (VBool True))
   \<and> verify_return_type E (VList (VTensor (t\<lparr>shape := [b, h, w]\<rparr>) # rest)) (Str ''MASK'') tensor_name
     = (if verify_tensors E then Inr VNone else Inr (VBool True))"
proof -
  have 1: "verify_tensor E (VList (a # rest)) tensor_name tensor_type allowed_shapes allowed_dims allowed_channels
     = verify_tensor E a tensor_name [] allowed_shapes allowed_dims allowed_channels"
    by (simp add: verify_tensor_off)
  show ?thesis
    apply (intro conjI)
    apply (rule 1)
     apply simp
    apply (simp add: verify_return_type_def tensor_types_def verify_one_tensor_def check_shapes_def)
    done
qed

lemma fold_min_ge: "(c \<le> fold min xs (x::real)) = (c \<le> x \<and> list_all (\<lambda>y. c \<le> y) xs)"
  by (induction xs arbitrary: x) auto

lemma fold_max_le: "(fold max xs (x::real) \<le> c) = (x \<le> c \<and> list_all (\<lambda>y. y \<le> c) xs)"
  by (induction xs arbitrary: x) auto

lemma check_mask_range_raises:
  "raises (check_mask_range E t n ty) = (\<not> (elems t \<noteq> [] \<and> list_all (\<lambda>x. 0 \<le> x \<and> x \<le> 1) (elems t)))"
  by (cases "elems t")
     (auto simp: check_mask_range_def tensor_min_def tensor_max_def raises_def fold_min_ge fold_max_le
        list_all_iff)

lemma verify_mask_raises:
  "verify_tensors E \<Longrightarrow>
   raises (verify_tensor E (VTensor t) n ''MASK'' (Some [3]) None None)
     = (\<not> (elems t \<noteq> [] \<and> list_all (\<lambda>x. 0 \<le> x \<and> x \<le> 1) (elems t) \<and> length (shape t) = 3))"
  using check_mask_range_raises [of E t n "''MASK''"]
  by (auto simp: verify_one_tensor_def check_shapes_def raises_def split: sum.splits)

lemma verify_tensor_type_mask:
  assumes "has_tag required_inputs key ''MASK'' \<or> has_tag optional_inputs key ''MASK''"
      and "map_of required_inputs key = None \<or> map_of optional_inputs key = None"
  shows "verify_tensor_type E key arg required_inputs optional_inputs tensor_name
           = verify_tensor E arg tensor_name ''MASK'' (Some [3]) None None"
proof -
  have "\<not> has_tag required_inputs key ''IMAGE''" "\<not> has_tag optional_inputs key ''IMAGE''"
    using assms
    by (auto simp: has_tag_def py_eq_def split: option.splits input_spec.splits elim: head_equals.elims)
  then show ?thesis
    using assms(1) by (simp add: verify_tensor_type_def tensor_types_def)
qed

lemma verify_return_type_mask:
  "verify_return_type E ret (Str ''MASK'') tensor_name
     = verify_tensor E ret tensor_name ''MASK'' (Some [3]) None None"
  by (simp add: verify_return_type_def tensor_types_def)

text \<open>
  C5, amended. With verification enabled, a tensor declared MASK, as an input (a key
  tagged MASK in one of the two input maps) or as an output, is refused exactly when it
  is empty, or has an element outside [0, 1], or does not have three axes. So a value
  outside [0, 1] is refused whatever the shape, and a tensor passes when it is not
  empty, all its elements are within [0, 1] and it has three axes.
\<close>

theorem mask_validation:
  assumes "verify_tensors E"
      and "has_tag required_inputs key ''MASK'' \<or> has_tag optional_inputs key ''MASK''"
      and "map_of required_inputs key = None \<or> map_of optional_inputs key = None"
  shows "raises (verify_tensor_type E key (VTensor t) required_inputs optional_inputs tensor_name)
           = (\<not> (elems t \<noteq> [] \<and> list_all (\<lambda>x. 0 \<le> x \<and> x \<le> 1) (elems t)
                   \<and> length (shape t) = 3))
         \<and> raises (verify_return_type E (VTensor t) (Str ''MASK'') tensor_name)
           = (\<not> (elems t \<noteq> [] \<and> list_all (\<lambda>x. 0 \<le> x \<and> x \<le> 1) (elems t)
                   \<and> length (shape t) = 3))"
  using verify_mask_raises [OF assms(1), of t tensor_name]
  by (simp only: verify_tensor_type_mask [OF assms(2,3)] verify_return_type_mask simp_thms)

theorem mask_validation_witness:
  "verify_tensors default_settings
   \<and> (has_tag [(''mask'', TypedInput (Str ''MASK'') [])] ''mask'' ''MASK'' \<or> has_tag [] ''mask'' ''MASK'')
   \<and> (map_of [(''mask'', TypedInput (Str ''MASK'') [])] ''mask'' = None
        \<or> map_of ([] :: (string \<times> input_spec) list) ''mask'' = None)
   \<and> \<not> raises (verify_tensor_type default_settings ''mask''
              (VTensor \<lparr>shape = [1, 1, 2], elems = [0, 1], device = Cpu\<rparr>)
              [(''mask'', TypedInput (Str ''MASK'') [])] [] ''mask'')
   \<and> \<not> raises (verify_return_type default_settings
              (VTensor \<lparr>shape = [1, 1, 2], elems = [0, 1], device = Cpu\<rparr>) (Str ''MASK'') ''return_0'')"
  using mask_validation [of default_settings "[(''mask'', TypedInput (Str ''MASK'') [])]" "''mask''" "[]"
          "\<lparr>shape = [1, 1, 2], elems = [0, 1], device = Cpu\<rparr>" "''mask''"]
        mask_validation [of default_settings "[(''mask'', TypedInput (Str ''MASK'') [])]" "''mask''" "[]"
          "\<lparr>shape = [1, 1, 2], elems = [0, 1], device = Cpu\<rparr>" "''return_0''"]
  by (simp add: default_settings_def has_tag_def py_eq_def)

text \<open>
  The claim as stated fails: a mask of shape (2, 2) with all elements within [0, 1] is
  refused as an output, for its shape.
\<close>

theorem mask_in_range_rejected_for_shape:
  "verify_tensors default_settings
   \<and> list_all (\<lambda>x. 0 \<le> x \<and> x \<le> 1) (elems \<lparr>shape = [2, 2], elems = [0, 1 / 2, 1 / 2, 1], device = Cpu\<rparr>)
   \<and> verify_return_type default_settings
         (VTensor \<lparr>shape = [2, 2], elems = [0, 1 / 2, 1 / 2, 1], device = Cpu\<rparr>) (Str ''MASK'') ''return_0''
       = Inl (AssertionError ''return_0: MASK tensor must have shape in [3], got torch.Size([2, 2])'')"
  by (simp add: default_settings_def verify_return_type_def tensor_types_def verify_one_tensor_def
        check_mask_range_def tensor_min_def tensor_max_def check_shapes_def show_size_def
        show_list_def show_nat.simps digit_char_def)

lemma retry_loop_succeeds:
  assumes "process_exception_logic E = Some hook"
      and "int K < max_tries E"
      and "n \<le> K"
      and "\<forall>i. n \<le> i \<and> i < K \<longrightarrow>
             attempt E f args kwargs debug types wname rnames i = (out i, Inl (err i))
             \<and> is_Exception (err i) \<and> hook (f, err i, input_desc, out i) = None"
      and "attempt E f args kwargs debug types wname rnames K = (buf, Inr v)"
  shows "retry_loop E f args kwargs debug input_desc types wname rnames (int n) cs
           = (cs @ map (\<lambda>i. (f, err i, input_desc, out i)) [n..<K], Inr v)"
  using assms(3,4)
proof (induction "K - n" arbitrary: n cs)
  case 0
  then have "n = K" by simp
  then show ?case
    using assms(2,5) by (simp add: retry_loop.simps [of E f args kwargs debug input_desc types wname rnames "int K"])
next
  case (Suc d)
  then have lt: "n < K" by simp
  have a: "attempt E f args kwargs debug types wname rnames n = (out n, Inl (err n))"
    and ex: "is_Exception (err n)" and h: "hook (f, err n, input_desc, out n) = None"
    using Suc.prems(2) lt by auto
  have step: "retry_loop E f args kwargs debug input_desc types wname rnames (int n) cs
      = retry_loop E f args kwargs debug input_desc types wname rnames (int (Suc n))
          (cs @ [(f, err n, input_desc, out n)])"
    using assms(1,2) lt a ex h
    by (simp add: retry_loop.simps [of E f args kwargs debug input_desc types wname rnames "int n"]
          add.commute)
  have ih: "retry_loop E f args kwargs debug input_desc types wname rnames (int (Suc n))
          (cs @ [(f, err n, input_desc, out n)])
        = ((cs @ [(f, err n, input_desc, out n)]) @ map (\<lambda>i. (f, err i, input_desc, out i)) [Suc n..<K], Inr v)"
    using Suc.hyps(1) [of "Suc n"] Suc.hyps(2) Suc.prems lt by auto
  show ?case
    using step ih lt by (simp add: upt_conv_Cons)
qed

lemma retry_loop_exhausted:
  assumes "max_tries E = int N"
      and "n < N"
      and "\<forall>i. n \<le> i \<and> i < N \<longrightarrow>
             attempt E f args kwargs debug types wname rnames i = (out i, Inl (err i))
             \<and> is_Exception (err i)"
      and "\<forall>h i. process_exception_logic E = Some h \<and> n \<le> i \<and> Suc i < N \<longrightarrow>
             h (f, err i, input_desc, out i) = None"
  shows "retry_loop E f args kwargs debug input_desc types wname rnames (int n) cs
           = (cs @ (case process_exception_logic E of
                      None \<Rightarrow> []
                    | Some h \<Rightarrow> map (\<lambda>i. (f, err i, input_desc, out i)) [n..<N - 1]),
              Inl (err (N - 1)))"
  using assms(2,3,4)
proof (induction "N - Suc n" arbitrary: n cs)
  case 0
  then have n: "Suc n = N" by simp
  have a: "attempt E f args kwargs debug types wname rnames n = (out n, Inl (err n))"
    using "0.prems" by auto
  show ?case
    using assms(1) n a
    by (auto simp: retry_loop.simps [of E f args kwargs debug input_desc types wname rnames "int n"]
          split: option.splits)
next
  case (Suc d)
  then have lt: "Suc n < N" by simp
  have a: "attempt E f args kwargs debug types wname rnames n = (out n, Inl (err n))"
    and ex: "is_Exception (err n)"
    using Suc.prems(2) lt by auto
  let ?call = "(f, err n, input_desc, out n)"
  let ?cs' = "cs @ (case process_exception_logic E of None \<Rightarrow> [] | Some h \<Rightarrow> [?call])"
  have step: "retry_loop E f args kwargs debug input_desc types wname rnames (int n) cs
      = retry_loop E f args kwargs debug input_desc types wname rnames (int (Suc n)) ?cs'"
    using assms(1) lt a ex Suc.prems(3)
    by (auto simp: retry_loop.simps [of E f args kwargs debug input_desc types wname rnames "int n"]
          add.commute split: option.splits)
  have ih: "retry_loop E f args kwargs debug input_desc types wname rnames (int (Suc n)) ?cs'
        = (?cs' @ (case process_exception_logic E of
                      None \<Rightarrow> []
                    | Some h \<Rightarrow> map (\<lambda>i. (f, err i, input_desc, out i)) [Suc n..<N - 1]),
              Inl (err (N - 1)))"
    using Suc.hyps(1) [of "Suc n"] Suc.hyps(2) Suc.prems lt by auto
  have "n < N - 1" using lt by simp
  then show ?case
    using step ih by (auto simp: upt_conv_Cons split: option.splits)
qed

lemma attempt_raise:
  "fn_body f i args kwargs = (out, Inl e)
   \<Longrightarrow> attempt E f args kwargs debug types wname rnames i = (out, Inl e)"
  by (simp add: attempt_def)

lemma attempt_return:
  "fn_body f i args kwargs = (out, Inr r)
   \<Longrightarrow> attempt E f args kwargs debug types wname rnames i
       = check_result E f debug types wname rnames out r"
  by (simp add: attempt_def)

lemma check_result_value:
  "check_result E f debug types wname rnames out r = (b, Inr v)
   \<Longrightarrow> v = VTuple (if types = [] then [VNone] else map (all_to Cpu) (as_tuple r))"
  by (auto simp: check_result_def Let_def split: if_splits prod.splits sum.splits)

text \<open>
  C1. Let a failure hook be set and let it return each time. When the function raises an
  \<^verbatim>\<open>Exception\<close> on its calls 0 to K - 1, returns on call K a value that passes the
  checks of the result, and \<^verbatim>\<open>max_tries\<close> is greater than K, the execution wrapper
  returns the normalised result and has called the hook exactly K times, once for each
  failed try in order, with the function, the exception of that try, the input
  descriptions and the buffer of that try. When every one of the \<^verbatim>\<open>max_tries\<close> tries
  fails, the exception of the last try is raised again as it is, after one hook call for
  each earlier try.
\<close>

theorem retry_until_success_or_exhaustion:
  "(process_exception_logic E = Some hook
    \<and> int K < max_tries E
    \<and> (\<forall>i<K. fn_body f i args kwargs = (out i, Inl (err i)) \<and> is_Exception (err i)
                \<and> hook (f, err i, input_desc, out i) = None)
    \<and> fn_body f K args kwargs = (out K, Inr r)
    \<and> check_result E f debug types wname rnames (out K) r = (buf, Inr v)
    \<longrightarrow> call_function_and_verify_result E f args kwargs debug input_desc types wname rnames
          = (map (\<lambda>i. (f, err i, input_desc, out i)) [0..<K], Inr v)
        \<and> v = VTuple (if types = [] then [VNone] else map (all_to Cpu) (as_tuple r)))
   \<and> (max_tries E = int (Suc K)
      \<and> (\<forall>i\<le>K. attempt E f args kwargs debug types wname rnames i = (out i, Inl (err i))
                  \<and> is_Exception (err i))
      \<and> (\<forall>h. \<forall>i<K. process_exception_logic E = Some h
                  \<longrightarrow> h (f, err i, input_desc, out i) = None)
      \<longrightarrow> call_function_and_verify_result E f args kwargs debug input_desc types wname rnames
            = (case process_exception_logic E of
                 None \<Rightarrow> []
               | Some h \<Rightarrow> map (\<lambda>i. (f, err i, input_desc, out i)) [0..<K],
               Inl (err K)))"
proof (intro conjI impI)
  assume a: "process_exception_logic E = Some hook
    \<and> int K < max_tries E
    \<and> (\<forall>i<K. fn_body f i args kwargs = (out i, Inl (err i)) \<and> is_Exception (err i)
                \<and> hook (f, err i, input_desc, out i) = None)
    \<and> fn_body f K args kwargs = (out K, Inr r)
    \<and> check_result E f debug types wname rnames (out K) r = (buf, Inr v)"
  have fails: "\<forall>i. 0 \<le> i \<and> i < K \<longrightarrow>
             attempt E f args kwargs debug types wname rnames i = (out i, Inl (err i))
             \<and> is_Exception (err i) \<and> hook (f, err i, input_desc, out i) = None"
    using a by (simp add: attempt_raise)
  have succ: "attempt E f args kwargs debug types wname rnames K = (buf, Inr v)"
    using a by (simp add: attempt_return)
  show "call_function_and_verify_result E f args kwargs debug input_desc types wname rnames
          = (map (\<lambda>i. (f, err i, input_desc, out i)) [0..<K], Inr v)"
    using retry_loop_succeeds [of E hook K 0 f args kwargs debug types wname rnames out err
            input_desc buf v "[]"] a fails succ
    by (simp add: call_function_and_verify_result_def)
  show "v = VTuple (if types = [] then [VNone] else map (all_to Cpu) (as_tuple r))"
    using a check_result_value by blast
next
  assume b: "max_tries E = int (Suc K)
      \<and> (\<forall>i\<le>K. attempt E f args kwargs debug types wname rnames i = (out i, Inl (err i))
                  \<and> is_Exception (err i))
      \<and> (\<forall>h. \<forall>i<K. process_exception_logic E = Some h
                  \<longrightarrow> h (f, err i, input_desc, out i) = None)"
  show "call_function_and_verify_result E f args kwargs debug input_desc types wname rnames
            = (case process_exception_logic E of
                 None \<Rightarrow> []
               | Some h \<Rightarrow> map (\<lambda>i. (f, err i, input_desc, out i)) [0..<K],
               Inl (err K))"
    using retry_loop_exhausted [of E "Suc K" 0 f args kwargs debug types wname rnames out err
            input_desc "[]"] b
    by (simp add: call_function_and_verify_result_def less_Suc_eq_le cong: option.case_cong)
qed


theorem retry_until_success_or_exhaustion_witness:
  "int 2 < max_tries retry_settings
   \<and> fn_body flaky 0 [] [] = (''try'', Inl (UserException ''RuntimeError'' ''not yet''))
   \<and> fn_body flaky 1 [] [] = (''try'', Inl (UserException ''RuntimeError'' ''not yet''))
   \<and> fn_body flaky 2 [] [] = (''done'', Inr (VInt 7))
   \<and> call_function_and_verify_result retry_settings flaky [] [] False [''x''] [Str ''INT'']
         ''flaky_comfyfunc_wrapper'' None
       = ([(flaky, UserException ''RuntimeError'' ''not yet'', [''x''], ''try''),
           (flaky, UserException ''RuntimeError'' ''not yet'', [''x''], ''try'')],
          Inr (VTuple [VInt 7]))
   \<and> max_tries (retry_settings\<lparr>max_tries := 2\<rparr>) = int (Suc 1)
   \<and> call_function_and_verify_result (retry_settings\<lparr>max_tries := 2\<rparr>) flaky [] [] False [''x'']
         [Str ''INT''] ''flaky_comfyfunc_wrapper'' None
       = ([(flaky, UserException ''RuntimeError'' ''not yet'', [''x''], ''try'')],
          Inl (UserException ''RuntimeError'' ''not yet''))"
  using retry_until_success_or_exhaustion [of retry_settings "\<lambda>c. None" 2 flaky "[]" "[]"
      "\<lambda>i. if i < 2 then ''try'' else ''done''"
      "\<lambda>i. UserException ''RuntimeError'' ''not yet''" "[''x'']" "VInt 7" False "[Str ''INT'']"
      "''flaky_comfyfunc_wrapper''" None "''done''" "VTuple [VInt 7]"]
    retry_until_success_or_exhaustion [of "retry_settings\<lparr>max_tries := 2\<rparr>" "\<lambda>c. None" 1 flaky
      "[]" "[]" "\<lambda>i. ''try''"
      "\<lambda>i. UserException ''RuntimeError'' ''not yet''" "[''x'']" "VInt 7" False "[Str ''INT'']"
      "''flaky_comfyfunc_wrapper''" None "''done''" "VTuple [VInt 7]"]
  by (simp add: retry_settings_def default_settings_def flaky_def check_result_def attempt_def
      verify_return_type_def tensor_types_def return_name_def upt_rec numeral_2_eq_2 less_Suc_eq
      le_Suc_eq)

lemma all_to_on_device: "on_device dev (all_to dev v)"
  by (induction dev v rule: all_to.induct) (simp_all add: list_all_iff)

lemma check_dims_exn: "check_dims t n ty i ds = Inl e \<Longrightarrow> is_Exception e"
  by (induction t n ty i ds rule: check_dims.induct) (auto split: if_splits)

lemma verify_one_tensor_exn: "verify_one_tensor E t n ty s d c = Inl e \<Longrightarrow> is_Exception e"
  by (auto simp: verify_one_tensor_def check_mask_range_def tensor_min_def tensor_max_def
        check_shapes_def check_channels_def
        split: if_splits sum.splits option.splits list.splits dest: check_dims_exn)

lemma verify_tensor_exn: "verify_tensor E a n ty s d c = Inl e \<Longrightarrow> is_Exception e"
  by (induction E a n ty s d c rule: verify_tensor.induct)
     (auto split: if_splits dest: verify_one_tensor_exn)

lemma verify_return_type_exn: "verify_return_type E ret ty n = Inl e \<Longrightarrow> is_Exception e"
  by (auto simp: verify_return_type_def split: option.splits dest: verify_tensor_exn)

lemma verify_results_exn:
  "verify_results E f debug types rnames i rs buf = (b, Inl e) \<Longrightarrow> \<exists>m. e = ValueError m"
proof (induction E f debug types rnames i rs buf rule: verify_results.induct)
  case 1
  then show ?case by simp
next
  case (2 E f debug types rnames i ret rest buffer)
  then show ?case
    by (auto simp: Let_def return_name_def split: sum.splits if_splits option.splits
          dest: verify_return_type_exn)
qed

lemma check_result_equal_arity:
  assumes "types \<noteq> []" and "length (as_tuple r) = length types"
  shows "(\<exists>b. check_result E f debug types wname rnames out r
                = (b, Inr (VTuple (map (all_to Cpu) (as_tuple r)))))
         \<or> (\<exists>b m. check_result E f debug types wname rnames out r = (b, Inl (ValueError m)))"
proof (cases "verify_results E f debug types rnames 0 (as_tuple r) (out @ none_warnings 0 (as_tuple r))")
  case (Pair b res)
  show ?thesis
  proof (cases res)
    case (Inl e)
    then obtain m where "e = ValueError m" using Pair verify_results_exn by blast
    then show ?thesis using assms Pair Inl by (simp add: check_result_def)
  next
    case (Inr u)
    then show ?thesis using assms Pair by (simp add: check_result_def)
  qed
qed

lemma check_result_wrong_arity:
  assumes "types \<noteq> []" and "length (as_tuple r) \<noteq> length types"
  shows "check_result E f debug types wname rnames out r
           = (out, Inl (arity_error f wname (length (as_tuple r)) (length types)))"
  using assms by (simp add: check_result_def)

text \<open>
  C2. Let the function have at least one declared return type and return the same value
  at every call, a value that is not a tuple counting as a tuple of one; let
  \<^verbatim>\<open>max_tries\<close> be positive and the hook, if any, return. When the length of the result
  differs from the number of return types, the try and the execution wrapper raise the
  arity error, whose message holds both counts and the source location. When the
  lengths agree, the try returns the tuple of the elements moved to the CPU, which the
  execution wrapper returns, or raises the \<^verbatim>\<open>ValueError\<close> of the output verification,
  never the arity error; every tensor that \<^verbatim>\<open>_all_to\<close> reaches is then on the CPU.
\<close>

theorem arity_of_result_checked:
  assumes "types \<noteq> []"
      and "\<forall>i. fn_body f i args kwargs = (out, Inr r)"
      and "0 < max_tries E"
      and "\<forall>h e. process_exception_logic E = Some h \<longrightarrow> h (f, e, input_desc, out) = None"
  shows "(length (as_tuple r) \<noteq> length types \<longrightarrow>
            attempt E f args kwargs debug types wname rnames n
              = (out, Inl (arity_error f wname (length (as_tuple r)) (length types)))
            \<and> snd (call_function_and_verify_result E f args kwargs debug input_desc types wname rnames)
              = Inl (arity_error f wname (length (as_tuple r)) (length types)))
         \<and> (length (as_tuple r) = length types \<longrightarrow>
              (\<exists>b. attempt E f args kwargs debug types wname rnames n
                      = (b, Inr (VTuple (map (all_to Cpu) (as_tuple r))))
                   \<and> call_function_and_verify_result E f args kwargs debug input_desc types wname rnames
                      = ([], Inr (VTuple (map (all_to Cpu) (as_tuple r)))))
              \<or> (\<exists>b m. attempt E f args kwargs debug types wname rnames n
                        = (b, Inl (ValueError m))))
         \<and> list_all (on_device Cpu) (map (all_to Cpu) (as_tuple r))
         \<and> arity_error f wname (length (as_tuple r)) (length types)
             = AssertionError (wname @ '': Number of return values '' @ show_nat (length (as_tuple r))
                 @ '' does not match number of return types '' @ show_nat (length types)
                 @ nl @ nl @ '' Source: '' @ fn_qualname f @ '' '' @ fn_filename f @ '':''
                 @ show_nat (fn_firstlineno f))"
proof (intro conjI impI)
  have att: "\<And>i. attempt E f args kwargs debug types wname rnames i
                = check_result E f debug types wname rnames out r"
    using assms(2) by (simp add: attempt_return)
  {
    assume ne: "length (as_tuple r) \<noteq> length types"
    let ?e = "arity_error f wname (length (as_tuple r)) (length types)"
    show a: "attempt E f args kwargs debug types wname rnames n = (out, Inl ?e)"
      using att check_result_wrong_arity [OF assms(1) ne] by simp
    define N where "N = nat (max_tries E - 1)"
    have N: "max_tries E = int (Suc N)"
      using assms(3) by (simp add: N_def)
    have "retry_loop E f args kwargs debug input_desc types wname rnames (int 0) []
           = ([] @ (case process_exception_logic E of
                      None \<Rightarrow> []
                    | Some h \<Rightarrow> map (\<lambda>i. (f, ?e, input_desc, out)) [0..<Suc N - 1]),
              Inl ?e)"
      using N assms(4) att check_result_wrong_arity [OF assms(1) ne]
      by (intro retry_loop_exhausted [where out = "\<lambda>i. out" and err = "\<lambda>i. ?e"])
         (auto simp: arity_error_def)
    then show "snd (call_function_and_verify_result E f args kwargs debug input_desc types wname rnames)
              = Inl ?e"
      by (simp add: call_function_and_verify_result_def)
  }
  {
    assume eq: "length (as_tuple r) = length types"
    show "(\<exists>b. attempt E f args kwargs debug types wname rnames n
                      = (b, Inr (VTuple (map (all_to Cpu) (as_tuple r))))
                   \<and> call_function_and_verify_result E f args kwargs debug input_desc types wname rnames
                      = ([], Inr (VTuple (map (all_to Cpu) (as_tuple r)))))
              \<or> (\<exists>b m. attempt E f args kwargs debug types wname rnames n
                        = (b, Inl (ValueError m)))"
      using check_result_equal_arity [OF assms(1) eq, of E f debug wname rnames out] att assms(3)
      by (auto simp: call_function_and_verify_result_def
            retry_loop.simps [of E f args kwargs debug input_desc types wname rnames 0])
  }
  show "list_all (on_device Cpu) (map (all_to Cpu) (as_tuple r))"
    by (simp add: list_all_iff all_to_on_device)
  show "arity_error f wname (length (as_tuple r)) (length types)
             = AssertionError (wname @ '': Number of return values '' @ show_nat (length (as_tuple r))
                 @ '' does not match number of return types '' @ show_nat (length types)
                 @ nl @ nl @ '' Source: '' @ fn_qualname f @ '' '' @ fn_filename f @ '':''
                 @ show_nat (fn_firstlineno f))"
    by (simp add: arity_error_def code_origin_loc_def)
qed

theorem arity_of_result_checked_witness:
  "[Str ''INT''] \<noteq> [] \<and> 0 < max_tries default_settings
   \<and> fn_body two_values 0 [] [] = ([], Inr (VTuple [VInt 1, VInt 2]))
   \<and> snd (call_function_and_verify_result default_settings two_values [] [] False [] [Str ''INT'']
            ''two_values_comfyfunc_wrapper'' None)
       = Inl (AssertionError (''two_values_comfyfunc_wrapper: Number of return values 2''
                @ '' does not match number of return types 1'' @ nl @ nl
                @ '' Source: two_values nodes_demo.py:20''))
   \<and> call_function_and_verify_result default_settings gpu_result [] [] False [] [Str ''TENSOR'']
         ''gpu_result_comfyfunc_wrapper'' None
       = ([], Inr (VTuple [VTensor \<lparr>shape = [2], elems = [3, 4], device = Cpu\<rparr>]))"
  using arity_of_result_checked [of "[Str ''INT'']" two_values "[]" "[]" "[]" "VTuple [VInt 1, VInt 2]"
          default_settings "[]" False "''two_values_comfyfunc_wrapper''" None 0]
        arity_of_result_checked [of "[Str ''TENSOR'']" gpu_result "[]" "[]" "[]"
          "VTensor \<lparr>shape = [2], elems = [3, 4], device = Cuda\<rparr>"
          default_settings "[]" False "''gpu_result_comfyfunc_wrapper''" None 0]
  by (simp add: default_settings_def two_values_def gpu_result_def show_nat.simps digit_char_def
        attempt_def check_result_def verify_return_type_def tensor_types_def return_name_def)

lemma map_of_dict_set: "map_of (dict_set k v d) = (map_of d)(k \<mapsto> v)"
  by (induction d) (auto simp: fun_eq_iff)

lemma dict_keys_dict_set_present:
  "k \<in> set (dict_keys d) \<Longrightarrow> dict_keys (dict_set k v d) = dict_keys d"
  by (induction d) (force simp: dict_keys_def)+

lemma map_of_fold_dict_set:
  "distinct (map fst cd)
   \<Longrightarrow> map_of (fold (\<lambda>(k, v). dict_set k v) cd old) k
       = (case map_of cd k of Some v \<Rightarrow> Some v | None \<Rightarrow> map_of old k)"
proof (induction cd arbitrary: old)
  case Nil
  then show ?case by simp
next
  case (Cons x cd)
  obtain a b where x: "x = (a, b)" by (cases x)
  have "a \<notin> fst ` set cd" using Cons.prems x by simp
  then have none: "map_of cd a = None" by (simp add: map_of_eq_None_iff)
  show ?case
    using Cons.IH [of "dict_set a b old"] Cons.prems x none
    by (auto simp: map_of_dict_set split: option.splits)
qed

lemma dict_set_absent: "k \<notin> set (map fst d) \<Longrightarrow> dict_set k v d = d @ [(k, v)]"
  by (induction d) auto

lemma fold_fixed:
  "fold (\<lambda>(k, v). dict_set k v)
             [(''INPUT_TYPES'', a1), (''CATEGORY'', a2), (''RETURN_TYPES'', a3), (''FUNCTION'', a4),
              (''INPUT_IS_LIST'', a5), (''OUTPUT_IS_LIST'', a6), (''OUTPUT_NODE'', a7),
              (''RETURN_NAMES'', a8), (''VALIDATE_INPUTS'', a9), (''IS_CHANGED'', a10),
              (''DESCRIPTION'', a11), (c, a12)] []
   = dict_set c a12 [(''INPUT_TYPES'', a1), (''CATEGORY'', a2), (''RETURN_TYPES'', a3), (''FUNCTION'', a4),
              (''INPUT_IS_LIST'', a5), (''OUTPUT_IS_LIST'', a6), (''OUTPUT_NODE'', a7),
              (''RETURN_NAMES'', a8), (''VALIDATE_INPUTS'', a9), (''IS_CHANGED'', a10),
              (''DESCRIPTION'', a11)]"
  by simp

lemma distinct_present:
  "distinct (map fst d)
   \<Longrightarrow> distinct (map fst (map (\<lambda>(k, v). (k, the v)) (filter (\<lambda>(k, v). v \<noteq> None) d)))"
  by (induction d) (auto simp: image_iff)

lemma map_of_present:
  "distinct (map fst d) \<Longrightarrow> map_of d k = Some (Some a)
   \<Longrightarrow> map_of (map (\<lambda>(k, v). (k, the v)) (filter (\<lambda>(k, v). v \<noteq> None) d)) k = Some a"
  by (induction d) (auto simp: image_iff split: if_splits)

lemma class_dict_output_node:
  assumes "na_cname A \<notin> set fixed_names"
  shows "map_of (class_dict_of A d) ''OUTPUT_NODE'' = Some (AFlag (na_is_output_node A))"
    and "distinct (map fst (class_dict_of A d))"
proof -
  let ?L = "[(''INPUT_TYPES'', Some (AInputTypes (na_required_inputs A) (na_hidden_inputs A)
                                        (na_optional_inputs A))),
              (''CATEGORY'', Some (AText (na_category A))),
              (''RETURN_TYPES'', Some (ATags (na_return_types A))),
              (''FUNCTION'', Some (AText (na_cname A))),
              (''INPUT_IS_LIST'', Some (AFlag (na_input_is_list A))),
              (''OUTPUT_IS_LIST'', Some (AFlags (na_output_is_list A))),
              (''OUTPUT_NODE'', Some (AFlag (na_is_output_node A))),
              (''RETURN_NAMES'', map_option ANames (na_return_names A)),
              (''VALIDATE_INPUTS'', map_option AHook (na_validate_inputs A)),
              (''IS_CHANGED'', map_option AHook (na_is_changed A)),
              (''DESCRIPTION'', map_option AText d)]"
  have fresh: "na_cname A \<notin> set (map fst ?L)"
    using assms by (simp add: fixed_names_def)
  have eq: "class_dict_of A d
      = map (\<lambda>(k, v). (k, the v))
          (filter (\<lambda>(k, v). v \<noteq> None) (?L @ [(na_cname A, Some (na_process_function A))]))"
    unfolding class_dict_of_def fold_fixed dict_set_absent [OF fresh] ..
  have dist: "distinct (map fst (?L @ [(na_cname A, Some (na_process_function A))]))"
    using fresh by auto
  have look: "map_of (?L @ [(na_cname A, Some (na_process_function A))]) ''OUTPUT_NODE''
                = Some (Some (AFlag (na_is_output_node A)))"
    by simp
  show "map_of (class_dict_of A d) ''OUTPUT_NODE'' = Some (AFlag (na_is_output_node A))"
    unfolding eq by (rule map_of_present [OF dist look])
  show "distinct (map fst (class_dict_of A d))"
    unfolding eq by (rule distinct_present [OF dist])
qed

lemma wrapped_name_fresh: "q @ ''_comfyfunc_wrapper'' \<notin> set fixed_names"
  by (auto simp: fixed_names_def dest!: arg_cong [where f = last])

lemma create_comfy_node_passes:
  assumes "add_color E (na_color A) (na_description A) = Inr d1"
      and "add_source (na_source_location A) d1 = Inr d2"
      and "already_initialized M
           \<or> (na_workflow_name A \<notin> set (dict_keys (NODE_CLASS_MAPPINGS M))
              \<and> na_display_name A \<notin> set (dict_values (NODE_DISPLAY_NAME_MAPPINGS M))
              \<and> (\<forall>c. na_node_class A = Some c \<longrightarrow> c \<notin> set (dict_values (NODE_CLASS_MAPPINGS M))))"
  shows "create_comfy_node E A M =
     Inr (case na_node_class A of
            Some c \<Rightarrow>
              M\<lparr>class_attrs := (class_attrs M)
                    (c := fold (\<lambda>(k, v). dict_set k v) (class_dict_of A d2) (class_attrs M c)),
                NODE_CLASS_MAPPINGS := dict_set (na_workflow_name A) c (NODE_CLASS_MAPPINGS M),
                NODE_DISPLAY_NAME_MAPPINGS :=
                  dict_set (na_workflow_name A) (na_display_name A) (NODE_DISPLAY_NAME_MAPPINGS M)\<rparr>
          | None \<Rightarrow>
              M\<lparr>class_attrs := (class_attrs M)
                    (NewClass (classes_made M) (na_workflow_name A) := class_dict_of A d2),
                classes_made := Suc (classes_made M),
                NODE_CLASS_MAPPINGS :=
                  dict_set (na_workflow_name A) (NewClass (classes_made M) (na_workflow_name A))
                    (NODE_CLASS_MAPPINGS M),
                NODE_DISPLAY_NAME_MAPPINGS :=
                  dict_set (na_workflow_name A) (na_display_name A) (NODE_DISPLAY_NAME_MAPPINGS M)\<rparr>)"
  using assms by (auto simp: create_comfy_node_def Let_def split: option.splits)

lemma create_comfy_node_refuses:
  assumes "add_color E (na_color A) (na_description A) = Inr d1"
      and "add_source (na_source_location A) d1 = Inr d2"
      and "\<not> already_initialized M"
  shows "(na_workflow_name A \<in> set (dict_keys (NODE_CLASS_MAPPINGS M)) \<longrightarrow>
            create_comfy_node E A M
              = Inl (AssertionError (''Node class '' @ quote @ na_workflow_name A @ '' (''
                      @ na_cname A @ '')'' @ quote @ '' already exists!'')))
       \<and> (na_workflow_name A \<notin> set (dict_keys (NODE_CLASS_MAPPINGS M))
          \<and> na_display_name A \<in> set (dict_values (NODE_DISPLAY_NAME_MAPPINGS M)) \<longrightarrow>
            create_comfy_node E A M
              = Inl (AssertionError (''Display name '' @ quote @ na_display_name A @ quote
                      @ '' already exists!'')))
       \<and> (na_workflow_name A \<notin> set (dict_keys (NODE_CLASS_MAPPINGS M))
          \<and> na_display_name A \<notin> set (dict_values (NODE_DISPLAY_NAME_MAPPINGS M))
          \<and> na_node_class A = Some c \<and> c \<in> set (dict_values (NODE_CLASS_MAPPINGS M)) \<longrightarrow>
            create_comfy_node E A M
              = Inl (AssertionError (''Only one method from '' @ quote @ class_ref_repr c
                      @ '' can be used as a ComfyUI node.'' @ quote)))"
  using assms by (auto simp: create_comfy_node_def Let_def)

lemma maybe_reload_module_flag:
  "already_initialized (fst (maybe_reload_module E f M)) = already_initialized M"
  by (auto simp: maybe_reload_module_def Let_def split: sum.splits option.splits)

lemma invoke_flag: "already_initialized (fst (invoke E C args kwargs input_desc M))"
  using maybe_reload_module_flag [of E "cl_func C" "M\<lparr>already_initialized := True\<rparr>"]
  by (auto simp: invoke_def split: prod.splits sum.splits)

lemma registered_once_eq:
  "registered_once =
     initial_state\<lparr>class_attrs := (class_attrs initial_state)
                     (NewClass 0 ''SaveText''
                        := class_dict_of save_text_node (Some (nl @ nl @ ''NodeSource=nodes_demo.py:40''))),
                   classes_made := Suc 0,
                   NODE_CLASS_MAPPINGS := [(''SaveText'', NewClass 0 ''SaveText'')],
                   NODE_DISPLAY_NAME_MAPPINGS := [(''SaveText'', ''Save Text'')]\<rparr>"
proof -
  have c: "add_color default_settings (na_color save_text_node) (na_description save_text_node)
             = Inr (Some [])"
    by (simp add: add_color_def save_text_node_def)
  have s: "add_source (na_source_location save_text_node) (Some [])
             = Inr (Some (nl @ nl @ ''NodeSource=nodes_demo.py:40''))"
    by (simp add: add_source_def save_text_node_def)
  have "create_comfy_node default_settings save_text_node initial_state =
     Inr (initial_state\<lparr>class_attrs := (class_attrs initial_state)
                     (NewClass 0 ''SaveText''
                        := class_dict_of save_text_node (Some (nl @ nl @ ''NodeSource=nodes_demo.py:40''))),
                   classes_made := Suc 0,
                   NODE_CLASS_MAPPINGS := [(''SaveText'', NewClass 0 ''SaveText'')],
                   NODE_DISPLAY_NAME_MAPPINGS := [(''SaveText'', ''Save Text'')]\<rparr>)"
    by (subst create_comfy_node_passes [OF c s])
       (simp_all add: initial_state_def save_text_node_def dict_keys_def dict_values_def)
  then show ?thesis by (simp add: registered_once_def)
qed

text \<open>
  C4. Take a registration whose colour and description are accepted. While
  \<^verbatim>\<open>already_initialized\<close> is unset, it raises the duplicate error of the first check that
  fails: the workflow name is a key of \<^verbatim>\<open>NODE_CLASS_MAPPINGS\<close>, or the display name is
  among the values of \<^verbatim>\<open>NODE_DISPLAY_NAME_MAPPINGS\<close>, or the class of the function is
  among the registered classes. Once the flag is set the registration succeeds and
  writes both mappings at the workflow name, in place when the name was a key. A call
  of the wrapper that passes its two loops over the arguments sets the flag.
\<close>

theorem duplicates_refused_until_initialized:
  assumes "add_color E (na_color A) (na_description A) = Inr d1"
      and "add_source (na_source_location A) d1 = Inr d2"
  shows "(\<not> already_initialized M \<longrightarrow>
            (na_workflow_name A \<in> set (dict_keys (NODE_CLASS_MAPPINGS M)) \<longrightarrow>
               create_comfy_node E A M
                 = Inl (AssertionError (''Node class '' @ quote @ na_workflow_name A @ '' (''
                         @ na_cname A @ '')'' @ quote @ '' already exists!'')))
          \<and> (na_workflow_name A \<notin> set (dict_keys (NODE_CLASS_MAPPINGS M))
             \<and> na_display_name A \<in> set (dict_values (NODE_DISPLAY_NAME_MAPPINGS M)) \<longrightarrow>
               create_comfy_node E A M
                 = Inl (AssertionError (''Display name '' @ quote @ na_display_name A @ quote
                         @ '' already exists!'')))
          \<and> (na_workflow_name A \<notin> set (dict_keys (NODE_CLASS_MAPPINGS M))
             \<and> na_display_name A \<notin> set (dict_values (NODE_DISPLAY_NAME_MAPPINGS M))
             \<and> na_node_class A = Some c \<and> c \<in> set (dict_values (NODE_CLASS_MAPPINGS M)) \<longrightarrow>
               create_comfy_node E A M
                 = Inl (AssertionError (''Only one method from '' @ quote @ class_ref_repr c
                         @ '' can be used as a ComfyUI node.'' @ quote))))
       \<and> (already_initialized M \<longrightarrow>
            (\<exists>M'. create_comfy_node E A M = Inr M'
               \<and> already_initialized M'
               \<and> NODE_CLASS_MAPPINGS M'
                   = dict_set (na_workflow_name A)
                       (case na_node_class A of
                          Some c \<Rightarrow> c
                        | None \<Rightarrow> NewClass (classes_made M) (na_workflow_name A))
                       (NODE_CLASS_MAPPINGS M)
               \<and> NODE_DISPLAY_NAME_MAPPINGS M'
                   = dict_set (na_workflow_name A) (na_display_name A) (NODE_DISPLAY_NAME_MAPPINGS M)
               \<and> map_of (NODE_DISPLAY_NAME_MAPPINGS M') (na_workflow_name A) = Some (na_display_name A)
               \<and> (na_workflow_name A \<in> set (dict_keys (NODE_CLASS_MAPPINGS M)) \<longrightarrow>
                    dict_keys (NODE_CLASS_MAPPINGS M') = dict_keys (NODE_CLASS_MAPPINGS M))))
       \<and> (coerce_kwargs E T C kwargs = Inr (kwargs1, input_desc)
          \<and> (if cl_input_is_list C then unwrap_lists C kwargs1 else Inr kwargs1) = Inr kwargs2 \<longrightarrow>
            already_initialized (fst (wrapper E T C args kwargs M)))"
proof (intro conjI impI)
  assume init: "already_initialized M"
  show "\<exists>M'. create_comfy_node E A M = Inr M'
               \<and> already_initialized M'
               \<and> NODE_CLASS_MAPPINGS M'
                   = dict_set (na_workflow_name A)
                       (case na_node_class A of
                          Some c \<Rightarrow> c
                        | None \<Rightarrow> NewClass (classes_made M) (na_workflow_name A))
                       (NODE_CLASS_MAPPINGS M)
               \<and> NODE_DISPLAY_NAME_MAPPINGS M'
                   = dict_set (na_workflow_name A) (na_display_name A) (NODE_DISPLAY_NAME_MAPPINGS M)
               \<and> map_of (NODE_DISPLAY_NAME_MAPPINGS M') (na_workflow_name A) = Some (na_display_name A)
               \<and> (na_workflow_name A \<in> set (dict_keys (NODE_CLASS_MAPPINGS M)) \<longrightarrow>
                    dict_keys (NODE_CLASS_MAPPINGS M') = dict_keys (NODE_CLASS_MAPPINGS M))"
    using init
    by (subst create_comfy_node_passes [OF assms])
       (auto simp: map_of_dict_set dict_keys_dict_set_present split: option.splits)
next
  assume "coerce_kwargs E T C kwargs = Inr (kwargs1, input_desc)
          \<and> (if cl_input_is_list C then unwrap_lists C kwargs1 else Inr kwargs1) = Inr kwargs2"
  then show "already_initialized (fst (wrapper E T C args kwargs M))"
    by (simp add: wrapper_def Let_def invoke_flag)
qed (use create_comfy_node_refuses [OF assms, of M c] in simp_all)

theorem duplicates_refused_until_initialized_witness:
  "add_color default_settings (na_color save_text_node) (na_description save_text_node) = Inr (Some [])
   \<and> add_source (na_source_location save_text_node) (Some [])
       = Inr (Some (nl @ nl @ ''NodeSource=nodes_demo.py:40''))
   \<and> \<not> already_initialized registered_once
   \<and> na_workflow_name save_text_node \<in> set (dict_keys (NODE_CLASS_MAPPINGS registered_once))
   \<and> create_comfy_node default_settings save_text_node registered_once
       = Inl (AssertionError (''Node class '' @ quote @ ''SaveText (save_text_comfyfunc_wrapper)''
                @ quote @ '' already exists!''))
   \<and> already_initialized (fst (wrapper default_settings initial_registry save_text_closure [] []
                                 registered_once))
   \<and> (\<exists>M'. create_comfy_node default_settings save_text_node
                (fst (wrapper default_settings initial_registry save_text_closure [] [] registered_once))
              = Inr M'
            \<and> NODE_CLASS_MAPPINGS M' = [(''SaveText'', NewClass 1 ''SaveText'')]
            \<and> NODE_DISPLAY_NAME_MAPPINGS M' = [(''SaveText'', ''Save Text'')])"
proof -
  let ?W = "fst (wrapper default_settings initial_registry save_text_closure [] [] registered_once)"
  have c: "add_color default_settings (na_color save_text_node) (na_description save_text_node)
             = Inr (Some [])"
    by (simp add: add_color_def save_text_node_def)
  have s: "add_source (na_source_location save_text_node) (Some [])
             = Inr (Some (nl @ nl @ ''NodeSource=nodes_demo.py:40''))"
    by (simp add: add_source_def save_text_node_def)
  have r: "\<not> already_initialized registered_once"
      "NODE_CLASS_MAPPINGS registered_once = [(''SaveText'', NewClass 0 ''SaveText'')]"
      "NODE_DISPLAY_NAME_MAPPINGS registered_once = [(''SaveText'', ''Save Text'')]"
      "classes_made registered_once = 1"
      "func_dict registered_once ''save_text'' = None"
    by (simp_all add: registered_once_eq initial_state_def)
  have n: "na_workflow_name save_text_node = ''SaveText''"
      "na_display_name save_text_node = ''Save Text''"
      "na_node_class save_text_node = None"
      "na_cname save_text_node = ''save_text_comfyfunc_wrapper''"
    by (simp_all add: save_text_node_def)
  have k: "coerce_kwargs default_settings initial_registry save_text_closure [] = Inr ([], [])
           \<and> (if cl_input_is_list save_text_closure then unwrap_lists save_text_closure []
                else Inr []) = Inr []"
    by simp
  have W: "?W = registered_once\<lparr>already_initialized := True\<rparr>"
    by (simp add: wrapper_def invoke_def maybe_reload_module_def default_settings_def
          save_text_closure_def save_text_def call_function_and_verify_result_def
          retry_loop.simps [of _ _ _ _ _ _ _ _ _ 0] attempt_def check_result_def r(5))
  have refused: "create_comfy_node default_settings save_text_node registered_once
       = Inl (AssertionError (''Node class '' @ quote @ ''SaveText (save_text_comfyfunc_wrapper)''
                @ quote @ '' already exists!''))"
    using duplicates_refused_until_initialized [OF c s, of registered_once "UserClass []"
              initial_registry save_text_closure "[]" "[]" "[]" "[]" "[]"] r(1,2)
    by (simp add: n dict_keys_def)
  have w: "already_initialized ?W"
    using duplicates_refused_until_initialized [OF c s, of registered_once "UserClass []"
              initial_registry save_text_closure "[]" "[]" "[]" "[]" "[]"] k
    by simp
  have accepted: "\<exists>M'. create_comfy_node default_settings save_text_node ?W = Inr M'
            \<and> NODE_CLASS_MAPPINGS M' = [(''SaveText'', NewClass 1 ''SaveText'')]
            \<and> NODE_DISPLAY_NAME_MAPPINGS M' = [(''SaveText'', ''Save Text'')]"
    using duplicates_refused_until_initialized [OF c s, of ?W "UserClass []"
              initial_registry save_text_closure "[]" "[]" "[]" "[]" "[]"] w
    by (auto simp: W r n)
  show ?thesis
    using c s r(1) r(2) refused w accepted by (simp add: n dict_keys_def)
qed

lemma create_comfy_node_output_flag:
  assumes "create_comfy_node E A M = Inr M'"
      and "na_cname A \<notin> set fixed_names"
  shows "\<exists>cls. map_of (NODE_CLASS_MAPPINGS M') (na_workflow_name A) = Some cls
           \<and> map_of (class_attrs M' cls) ''OUTPUT_NODE'' = Some (AFlag (na_is_output_node A))"
proof -
  obtain d1 where c: "add_color E (na_color A) (na_description A) = Inr d1"
    using assms(1) by (cases "add_color E (na_color A) (na_description A)")
                       (auto simp: create_comfy_node_def)
  obtain d2 where s: "add_source (na_source_location A) d1 = Inr d2"
    using assms(1) c by (cases "add_source (na_source_location A) d1")
                         (auto simp: create_comfy_node_def)
  have guard: "already_initialized M
           \<or> (na_workflow_name A \<notin> set (dict_keys (NODE_CLASS_MAPPINGS M))
              \<and> na_display_name A \<notin> set (dict_values (NODE_DISPLAY_NAME_MAPPINGS M))
              \<and> (\<forall>c. na_node_class A = Some c \<longrightarrow> c \<notin> set (dict_values (NODE_CLASS_MAPPINGS M))))"
    using assms(1) c s by (auto simp: create_comfy_node_def Let_def split: if_splits)
  note cd = class_dict_output_node [OF assms(2), of d2]
  show ?thesis
    using assms(1) cd
    unfolding create_comfy_node_passes [OF c s guard]
    by (auto simp: map_of_dict_set map_of_fold_dict_set split: option.splits)
qed

text \<open>
  C8. After a successful decoration, the class registered under the workflow name has
  \<^verbatim>\<open>OUTPUT_NODE\<close> true when the list of return types, given or inferred, is empty,
  whatever \<^verbatim>\<open>is_output_node\<close> is, and equal to \<^verbatim>\<open>is_output_node\<close> otherwise.
\<close>

theorem output_flag_follows_return_types:
  assumes "decorator E T opts func M = Inr M'"
  shows "\<exists>cls. map_of (NODE_CLASS_MAPPINGS M') (workflow_name_of opts func) = Some cls
           \<and> (fst (return_types_of T opts func) = [] \<longrightarrow>
                  map_of (class_attrs M' cls) ''OUTPUT_NODE'' = Some (AFlag True))
           \<and> (fst (return_types_of T opts func) \<noteq> [] \<longrightarrow>
                  map_of (class_attrs M' cls) ''OUTPUT_NODE'' = Some (AFlag (opt_is_output_node opts)))"
proof -
  obtain A where A: "create_comfy_node E A M = Inr M'"
      and cn: "na_cname A = fn_qualname func @ ''_comfyfunc_wrapper''"
      and wf: "na_workflow_name A = workflow_name_of opts func"
      and out: "na_is_output_node A
                  = (opt_is_output_node opts \<or> fst (return_types_of T opts func) = [])"
    using assms
    by (auto simp: decorator_def Let_def split: sum.splits prod.splits)
  show ?thesis
    using create_comfy_node_output_flag [OF A] wrapped_name_fresh [of "fn_qualname func"] cn wf out
    by auto
qed

lemma decorate_save_text:
  "\<exists>M'. decorator default_settings initial_registry default_options save_text initial_state = Inr M'"
  by (simp add: decorator_def Let_def get_node_class_def is_static_method_def is_class_method_def
        infer_input_types_from_annotations_def return_types_of_def
        infer_return_types_from_annotations_def check_return_names_def truthy_def
        create_comfy_node_def add_color_def add_source_def initial_state_def dict_keys_def
        dict_values_def default_options_def save_text_def empty_annot_def annotate_input_def
        split: prod.splits)

lemma decorate_flaky:
  "\<exists>M'. decorator default_settings initial_registry default_options flaky initial_state = Inr M'"
  by (simp add: decorator_def Let_def get_node_class_def is_static_method_def is_class_method_def
        infer_input_types_from_annotations_def return_types_of_def
        infer_return_types_from_annotations_def check_return_names_def truthy_def
        create_comfy_node_def add_color_def add_source_def initial_state_def dict_keys_def
        dict_values_def default_options_def flaky_def empty_annot_def annotate_input_def
        split: prod.splits)

lemma workflow_names:
  "workflow_name_of default_options save_text = ''SaveText''"
  "workflow_name_of default_options flaky = ''Flaky''"
  by (simp_all add: workflow_name_of_def name_parts_of_def default_options_def truthy_def
        save_text_def flaky_def title_def lower_letters_def upper_letters_def to_upper_def)

lemma example_return_types:
  "fst (return_types_of initial_registry default_options save_text) = []"
  "fst (return_types_of initial_registry default_options flaky) \<noteq> []"
  by (simp_all add: return_types_of_def infer_return_types_from_annotations_def default_options_def
        save_text_def flaky_def empty_annot_def)

theorem output_flag_follows_return_types_witness:
  "(\<exists>M' cls. decorator default_settings initial_registry default_options save_text initial_state
                 = Inr M'
        \<and> fst (return_types_of initial_registry default_options save_text) = []
        \<and> \<not> opt_is_output_node default_options
        \<and> map_of (NODE_CLASS_MAPPINGS M') ''SaveText'' = Some cls
        \<and> map_of (class_attrs M' cls) ''OUTPUT_NODE'' = Some (AFlag True))
   \<and> (\<exists>M' cls. decorator default_settings initial_registry default_options flaky initial_state
                 = Inr M'
        \<and> fst (return_types_of initial_registry default_options flaky) \<noteq> []
        \<and> map_of (NODE_CLASS_MAPPINGS M') ''Flaky'' = Some cls
        \<and> map_of (class_attrs M' cls) ''OUTPUT_NODE'' = Some (AFlag False))"
proof -
  obtain M1 where 1:
    "decorator default_settings initial_registry default_options save_text initial_state = Inr M1"
    using decorate_save_text by blast
  obtain M2 where 2:
    "decorator default_settings initial_registry default_options flaky initial_state = Inr M2"
    using decorate_flaky by blast
  have o: "\<not> opt_is_output_node default_options"
    by (simp add: default_options_def)
  show ?thesis
    using output_flag_follows_return_types [OF 1] output_flag_follows_return_types [OF 2]
      1 2 o example_return_types
    by (auto simp: workflow_names)
qed

lemma register_type_new:
  "ANNOTATION_TO_COMFYUI_TYPE T (get_fully_qualified_name cls) = None
   \<Longrightarrow> register_type cls name a b f T
       = T\<lparr>ANNOTATION_TO_COMFYUI_TYPE :=
              (ANNOTATION_TO_COMFYUI_TYPE T)(get_fully_qualified_name cls \<mapsto> name),
            SHOULD_AUTOCONVERT := (SHOULD_AUTOCONVERT T)(get_fully_qualified_name cls \<mapsto> a),
            DEFAULT_FORCE_INPUT := (DEFAULT_FORCE_INPUT T)(get_fully_qualified_name cls \<mapsto> f)\<rparr>"
  by (simp add: register_type_def Let_def domIff)

lemma initial_registry_lookup:
  "ANNOTATION_TO_COMFYUI_TYPE initial_registry =
     [''torch.Tensor'' \<mapsto> Str ''TENSOR'', ''comfy_annotations.ImageTensor'' \<mapsto> Str ''IMAGE'',
      ''comfy_annotations.MaskTensor'' \<mapsto> Str ''MASK'', ''builtins.int'' \<mapsto> Str ''INT'',
      ''builtins.float'' \<mapsto> Str ''FLOAT'', ''builtins.str'' \<mapsto> Str ''STRING'',
      ''builtins.bool'' \<mapsto> Str ''BOOLEAN'', ''comfy_annotations.AnyType'' \<mapsto> any_type]"
  "SHOULD_AUTOCONVERT initial_registry =
     [''str'' \<mapsto> True, ''torch.Tensor'' \<mapsto> False, ''comfy_annotations.ImageTensor'' \<mapsto> False,
      ''comfy_annotations.MaskTensor'' \<mapsto> False, ''builtins.int'' \<mapsto> False,
      ''builtins.float'' \<mapsto> False, ''builtins.str'' \<mapsto> False,
      ''builtins.bool'' \<mapsto> False, ''comfy_annotations.AnyType'' \<mapsto> False]"
  "DEFAULT_FORCE_INPUT initial_registry =
     [''torch.Tensor'' \<mapsto> False, ''comfy_annotations.ImageTensor'' \<mapsto> False,
      ''comfy_annotations.MaskTensor'' \<mapsto> False, ''builtins.int'' \<mapsto> False,
      ''builtins.float'' \<mapsto> False, ''builtins.str'' \<mapsto> False,
      ''builtins.bool'' \<mapsto> False, ''comfy_annotations.AnyType'' \<mapsto> False]"
  by (simp_all add: initial_registry_def register_type_new empty_registry_def)

lemma construct_each_length: "construct_each E cls xs = Inr ys \<Longrightarrow> length ys = length xs"
  by (induction xs arbitrary: ys) (auto split: sum.splits)

lemma coerce_arg_list:
  assumes "coerce_arg E T C k (VList xs) = Inr (v1, d)"
  shows "\<exists>ys. v1 = VList ys \<and> length ys = length xs"
proof -
  have p: "promote_mask C k (all_to (get_device E) (VList xs))
             = Inr (VList (map (all_to (get_device E)) xs))"
    using assms by (auto simp: coerce_arg_def promote_mask_def split: if_splits)
  obtain a2 where a: "autoconvert E T C k (VList (map (all_to (get_device E)) xs)) = Inr a2"
      and v: "v1 = a2"
    using assms p by (auto simp: coerce_arg_def split: sum.splits if_splits)
  have "\<exists>ys. a2 = VList ys \<and> length ys = length xs"
    using a
    by (auto simp: autoconvert_def split: if_splits option.splits sum.splits
          dest: construct_each_length)
  then show ?thesis using v by simp
qed

lemma coerce_kwargs_rel:
  "coerce_kwargs E T C kw = Inr (kw1, ds)
   \<Longrightarrow> list_all2 (\<lambda>p q. fst q = fst p \<and> (\<exists>d. coerce_arg E T C (fst p) (snd p) = Inr (snd q, d)))
         kw kw1"
proof (induction kw arbitrary: kw1 ds)
  case Nil
  then show ?case by simp
next
  case (Cons x kw)
  obtain k v where x: "x = (k, v)" by (cases x)
  show ?case
    using Cons.prems Cons.IH x
    by (auto split: sum.splits prod.splits)
qed

lemma list_length_Some: "list_length v = Some n \<Longrightarrow> \<exists>xs. v = VList xs \<and> length xs = n"
  by (cases v) auto

lemma coerce_kwargs_delivered:
  assumes "coerce_kwargs E T C kw = Inr (kw1, ds)" and "list_all (delivered C) kw"
  shows "list_all (delivered C) kw1"
proof -
  have "list_all2 (\<lambda>p q. fst q = fst p \<and> (\<exists>d. coerce_arg E T C (fst p) (snd p) = Inr (snd q, d)))
         kw kw1"
    using assms(1) by (rule coerce_kwargs_rel)
  then show ?thesis
    using assms(2)
  proof (induction rule: list_all2_induct)
    case Nil
    then show ?case by simp
  next
    case (Cons p ps q qs)
    obtain d where c: "coerce_arg E T C (fst p) (snd p) = Inr (snd q, d)" and k: "fst q = fst p"
      using Cons.hyps(1) by auto
    have dp: "delivered C p" using Cons.prems by simp
    then obtain xs where xs: "snd p = VList xs"
      by (cases "snd p") (auto simp: delivered_def split: option.splits if_splits)
    obtain ys where ys: "snd q = VList ys" "length ys = length xs"
      using coerce_arg_list c xs by metis
    have "delivered C q"
      using dp k xs ys by (auto simp: delivered_def split: option.splits if_splits)
    then show ?case using Cons by simp
  qed
qed

lemma unwrap_lists_ok:
  assumes "list_all (delivered C) kw"
  shows "\<exists>kw2. unwrap_lists C kw = Inr kw2 \<and> list_all2 (unwrapped C) kw kw2"
  using assms
proof (induction kw)
  case Nil
  then show ?case by simp
next
  case (Cons x kw)
  obtain k v where x: "x = (k, v)" by (cases x)
  obtain kw2 where ih: "unwrap_lists C kw = Inr kw2" "list_all2 (unwrapped C) kw kw2"
    using Cons by auto
  have d: "delivered C (k, v)" using Cons.prems x by simp
  show ?case
  proof (cases "map_of (cl_input_is_list_map C) k = Some True")
    case True
    then obtain xs where v: "v = VList xs"
      using d by (cases v) (auto simp: delivered_def)
    have "unwrapped C (k, v) (k, v)"
      using True by (simp add: unwrapped_def)
    then show ?thesis
      using True x ih v by simp
  next
    case False
    then have f: "map_of (cl_input_is_list_map C) k = Some False" and "list_length v = Some 1"
      using d by (auto simp: delivered_def split: option.splits if_splits)
    then obtain y where v: "v = VList [y]"
      using list_length_Some [of v 1] by (auto simp: length_Suc_conv)
    have "unwrapped C (k, v) (k, y)"
      using f v by (simp add: unwrapped_def)
    then show ?thesis
      using f x ih v by simp
  qed
qed

lemma unwrap_lists_bad:
  assumes "(k, VList xs) \<in> set kw" and "map_of (cl_input_is_list_map C) k = Some False"
      and "length xs \<noteq> 1"
  shows "\<exists>e. unwrap_lists C kw = Inl e"
  using assms(1)
proof (induction kw)
  case Nil
  then show ?case by simp
next
  case (Cons x kw)
  obtain k' v' where x: "x = (k', v')" by (cases x)
  show ?case
  proof (cases "x = (k, VList xs)")
    case True
    then show ?thesis using assms(2,3) by (auto split: sum.splits)
  next
    case False
    then obtain e where "unwrap_lists C kw = Inl e" using Cons by auto
    then show ?thesis using x by (auto split: sum.splits option.splits)
  qed
qed

lemma coerce_kwargs_bad:
  assumes "coerce_kwargs E T C kw = Inr (kw1, ds)" and "(k, VList xs) \<in> set kw"
  shows "\<exists>ys. (k, VList ys) \<in> set kw1 \<and> length ys = length xs"
proof -
  have "list_all2 (\<lambda>p q. fst q = fst p \<and> (\<exists>d. coerce_arg E T C (fst p) (snd p) = Inr (snd q, d)))
         kw kw1"
    using assms(1) by (rule coerce_kwargs_rel)
  then obtain q where q: "q \<in> set kw1" "fst q = k"
      "\<exists>d. coerce_arg E T C k (VList xs) = Inr (snd q, d)"
    using assms(2) by (force simp: list_all2_conv_all_nth in_set_conv_nth)
  then obtain ys where "snd q = VList ys" "length ys = length xs"
    using coerce_arg_list by blast
  then show ?thesis using q by (cases q) auto
qed

lemma promote_mask_tensor:
  "promote_mask C key (VTensor t)
     = Inr (VTensor (if has_tag (cl_required_inputs C) key ''MASK'' \<and> length (shape t) = 2
                     then unsqueeze0 t else t))"
  by (simp add: promote_mask_def)

lemma promote_mask_other_tag:
  "\<not> has_tag (cl_required_inputs C) key ''MASK'' \<Longrightarrow> promote_mask C key arg = Inr arg"
  by (simp add: promote_mask_def)

text \<open>
  What the second loop of the wrapper does once the first loop has passed: in list mode,
  when every argument is delivered as a list, of one element for a parameter not
  declared as a list, each such list is replaced by its element, the lists of the
  declared list parameters are left, and the function is invoked with these arguments.
  When an argument of a parameter not declared as a list is a list of more than one
  element, the wrapper raises, leaves the globals as they were and calls nothing.
\<close>

lemma unwrap_after_first_loop:
  assumes "cl_input_is_list C"
  shows "(coerce_kwargs E T C kwargs = Inr (kwargs1, input_desc) \<and> list_all (delivered C) kwargs
          \<longrightarrow> (\<exists>kwargs2. unwrap_lists C kwargs1 = Inr kwargs2
                 \<and> list_all2 (unwrapped C) kwargs1 kwargs2
                 \<and> wrapper E T C args kwargs M
                     = invoke E C (if cl_is_cls_mth C then drop 1 args else args) kwargs2
                         input_desc M))
         \<and> ((k, VList xs) \<in> set kwargs \<and> map_of (cl_input_is_list_map C) k = Some False
            \<and> 1 < length xs
            \<longrightarrow> (\<exists>e. wrapper E T C args kwargs M = (M, [], Inl e)))"
proof (intro conjI impI)
  assume a: "coerce_kwargs E T C kwargs = Inr (kwargs1, input_desc) \<and> list_all (delivered C) kwargs"
  then have "list_all (delivered C) kwargs1"
    using coerce_kwargs_delivered by blast
  then obtain kwargs2 where u: "unwrap_lists C kwargs1 = Inr kwargs2"
      "list_all2 (unwrapped C) kwargs1 kwargs2"
    using unwrap_lists_ok by blast
  show "\<exists>kwargs2. unwrap_lists C kwargs1 = Inr kwargs2
                 \<and> list_all2 (unwrapped C) kwargs1 kwargs2
                 \<and> wrapper E T C args kwargs M
                     = invoke E C (if cl_is_cls_mth C then drop 1 args else args) kwargs2
                         input_desc M"
    using a u assms by (auto simp: wrapper_def Let_def)
next
  assume b: "(k, VList xs) \<in> set kwargs \<and> map_of (cl_input_is_list_map C) k = Some False
            \<and> 1 < length xs"
  show "\<exists>e. wrapper E T C args kwargs M = (M, [], Inl e)"
  proof (cases "coerce_kwargs E T C kwargs")
    case (Inl e)
    then show ?thesis by (simp add: wrapper_def)
  next
    case (Inr r)
    obtain kw1 ds where r: "r = (kw1, ds)" by (cases r)
    obtain ys where "(k, VList ys) \<in> set kw1" "length ys = length xs"
      using coerce_kwargs_bad Inr r b by blast
    then obtain e where "unwrap_lists C kw1 = Inl e"
      using unwrap_lists_bad [of k ys kw1 C] b by auto
    then show ?thesis
      using Inr r assms by (simp add: wrapper_def)
  qed
qed

lemma repeat_coerced:
  "coerce_kwargs default_settings initial_registry repeat_closure
       [(''images'', VList [VTensor pixel, VTensor pixel]), (''steps'', VList [VInt 3])]
     = Inr ([(''images'', VList [VTensor pixel, VTensor pixel]), (''steps'', VList [VInt 3])],
            [''images (builtins.list): list'', ''steps (builtins.list): list''])"
  "coerce_kwargs default_settings initial_registry repeat_closure
       [(''images'', VList [VTensor pixel, VTensor pixel]), (''steps'', VList [VInt 3, VInt 4])]
     = Inr ([(''images'', VList [VTensor pixel, VTensor pixel]), (''steps'', VList [VInt 3, VInt 4])],
            [''images (builtins.list): list'', ''steps (builtins.list): list''])"
  by (simp_all add: coerce_arg_def promote_mask_def has_tag_def py_eq_def autoconvert_def
        initial_registry_lookup describe_def type_fqn_def verify_tensor_type_def tensor_types_def
        verify_one_tensor_def check_shapes_def check_channels_def get_device_def
        default_settings_def repeat_closure_def pixel_def dict_keys_def)

lemma unwrap_after_first_loop_example:
  "cl_input_is_list repeat_closure
   \<and> list_all (delivered repeat_closure)
         [(''images'', VList [VTensor pixel, VTensor pixel]), (''steps'', VList [VInt 3])]
   \<and> unwrap_lists repeat_closure
         [(''images'', VList [VTensor pixel, VTensor pixel]), (''steps'', VList [VInt 3])]
       = Inr [(''images'', VList [VTensor pixel, VTensor pixel]), (''steps'', VInt 3)]
   \<and> wrapper default_settings initial_registry repeat_closure []
         [(''images'', VList [VTensor pixel, VTensor pixel]), (''steps'', VList [VInt 3])] initial_state
       = (initial_state\<lparr>already_initialized := True\<rparr>, [], Inr (VTuple [VInt 3]))
   \<and> map_of (cl_input_is_list_map repeat_closure) ''steps'' = Some False
   \<and> wrapper default_settings initial_registry repeat_closure []
         [(''images'', VList [VTensor pixel, VTensor pixel]), (''steps'', VList [VInt 3, VInt 4])]
         initial_state
       = (initial_state, [], Inl (AssertionError []))"
proof -
  have l: "cl_input_is_list repeat_closure"
    by (simp add: repeat_closure_def)
  have d: "list_all (delivered repeat_closure)
         [(''images'', VList [VTensor pixel, VTensor pixel]), (''steps'', VList [VInt 3])]"
    by (simp add: delivered_def repeat_closure_def)
  have u: "unwrap_lists repeat_closure
         [(''images'', VList [VTensor pixel, VTensor pixel]), (''steps'', VList [VInt 3])]
       = Inr [(''images'', VList [VTensor pixel, VTensor pixel]), (''steps'', VInt 3)]"
    by (simp add: repeat_closure_def)
  have i: "invoke default_settings repeat_closure []
             [(''images'', VList [VTensor pixel, VTensor pixel]), (''steps'', VInt 3)]
             [''images (builtins.list): list'', ''steps (builtins.list): list''] initial_state
           = (initial_state\<lparr>already_initialized := True\<rparr>, [], Inr (VTuple [VInt 3]))"
    by (simp add: invoke_def maybe_reload_module_def default_settings_def repeat_closure_def
          repeat_fn_def initial_state_def call_function_and_verify_result_def
          retry_loop.simps [of _ _ _ _ _ _ _ _ _ 0] attempt_def check_result_def
          verify_return_type_def tensor_types_def return_name_def)
  have m: "map_of (cl_input_is_list_map repeat_closure) ''steps'' = Some False"
    by (simp add: repeat_closure_def)
  have c: "cl_is_cls_mth repeat_closure = False" "cl_input_is_list repeat_closure = True"
    by (simp_all add: repeat_closure_def)
  have bad: "wrapper default_settings initial_registry repeat_closure []
         [(''images'', VList [VTensor pixel, VTensor pixel]), (''steps'', VList [VInt 3, VInt 4])]
         initial_state
       = (initial_state, [], Inl (AssertionError []))"
    unfolding wrapper_def repeat_coerced(2)
    by (simp add: repeat_closure_def)
  have good: "wrapper default_settings initial_registry repeat_closure []
         [(''images'', VList [VTensor pixel, VTensor pixel]), (''steps'', VList [VInt 3])] initial_state
       = (initial_state\<lparr>already_initialized := True\<rparr>, [], Inr (VTuple [VInt 3]))"
    unfolding wrapper_def repeat_coerced(1)
    by (simp only: sum.case prod.case Let_def c u i if_True if_False)
  show ?thesis
    using l d u good m bad
      unwrap_after_first_loop [OF l, of default_settings initial_registry
        "[(''images'', VList [VTensor pixel, VTensor pixel]), (''steps'', VList [VInt 3])]"
        "[(''images'', VList [VTensor pixel, VTensor pixel]), (''steps'', VList [VInt 3])]"
        "[''images (builtins.list): list'', ''steps (builtins.list): list'']"
        "[]" initial_state "''steps''" "[VInt 3]"]
      unwrap_after_first_loop [OF l, of default_settings initial_registry
        "[(''images'', VList [VTensor pixel, VTensor pixel]), (''steps'', VList [VInt 3, VInt 4])]"
        "[(''images'', VList [VTensor pixel, VTensor pixel]), (''steps'', VList [VInt 3, VInt 4])]"
        "[''images (builtins.list): list'', ''steps (builtins.list): list'']"
        "[]" initial_state "''steps''" "[VInt 3, VInt 4]"]
    by simp
qed

lemma required_mask_list_raises:
  "has_tag (cl_required_inputs C) key ''MASK''
   \<Longrightarrow> coerce_arg E T C key (VList xs) = Inl (no_attribute (VList (map (all_to (get_device E)) xs)) ''shape'')"
  by (simp add: coerce_arg_def promote_mask_def)

text \<open>
  C6. In list mode the host delivers every argument as a list, and the second loop of
  the wrapper would replace the list of one element of a parameter not declared as a
  list by its element. For \<^verbatim>\<open>blend(images: list[ImageTensor], mask: MaskTensor)\<close> the
  schema is in list mode and \<^verbatim>\<open>mask\<close> is a required input tagged MASK; delivered as a
  list of one valid mask, it reaches the promotion in the first loop, which reads
  \<^verbatim>\<open>arg.shape\<close> on the list, so the wrapper raises an \<^verbatim>\<open>AttributeError\<close> before the
  second loop and calls nothing. The second loop alone unwraps the same arguments, and
  the verification accepts the list.
\<close>

theorem list_mode_required_mask_raises:
  "infer_input_types_from_annotations initial_registry blend_fn False False
     = Inr \<lparr>required_of = cl_required_inputs blend_closure, hidden_of = [],
            optional_of = cl_optional_inputs blend_closure,
            is_list_of = cl_input_is_list_map blend_closure,
            type_of = cl_input_type_map blend_closure\<rparr>
   \<and> cl_input_is_list blend_closure
       = list_ex (\<lambda>b. b) (dict_values (cl_input_is_list_map blend_closure))
   \<and> cl_input_is_list blend_closure
   \<and> list_all (delivered blend_closure)
         [(''images'', VList [VTensor pixel]), (''mask'', VList [VTensor full_mask])]
   \<and> unwrap_lists blend_closure
         [(''images'', VList [VTensor pixel]), (''mask'', VList [VTensor full_mask])]
       = Inr [(''images'', VList [VTensor pixel]), (''mask'', VTensor full_mask)]
   \<and> verify_tensor_type default_settings ''mask'' (VList [VTensor full_mask])
         (cl_required_inputs blend_closure) (cl_optional_inputs blend_closure) ''mask''
       = Inr VNone
   \<and> coerce_arg default_settings initial_registry blend_closure ''mask'' (VList [VTensor full_mask])
       = Inl (AttributeError (quote @ ''list'' @ quote @ '' object has no attribute '' @ quote
                @ ''shape'' @ quote))
   \<and> wrapper default_settings initial_registry blend_closure []
         [(''images'', VList [VTensor pixel]), (''mask'', VList [VTensor full_mask])] initial_state
       = (initial_state, [],
          Inl (AttributeError (quote @ ''list'' @ quote @ '' object has no attribute '' @ quote
                 @ ''shape'' @ quote)))"
proof -
  have s: "infer_input_types_from_annotations initial_registry blend_fn False False
     = Inr \<lparr>required_of = cl_required_inputs blend_closure, hidden_of = [],
            optional_of = cl_optional_inputs blend_closure,
            is_list_of = cl_input_is_list_map blend_closure,
            type_of = cl_input_type_map blend_closure\<rparr>"
    by (simp add: infer_input_types_from_annotations_def blend_fn_def blend_closure_def
          annotate_input_def default_force_input_def initial_registry_lookup)
  have l: "cl_input_is_list blend_closure
             = list_ex (\<lambda>b. b) (dict_values (cl_input_is_list_map blend_closure))"
      "cl_input_is_list blend_closure"
    by (simp_all add: blend_closure_def dict_values_def)
  have d: "list_all (delivered blend_closure)
         [(''images'', VList [VTensor pixel]), (''mask'', VList [VTensor full_mask])]"
    by (simp add: delivered_def blend_closure_def)
  have u: "unwrap_lists blend_closure
         [(''images'', VList [VTensor pixel]), (''mask'', VList [VTensor full_mask])]
       = Inr [(''images'', VList [VTensor pixel]), (''mask'', VTensor full_mask)]"
    by (simp add: blend_closure_def)
  have v: "verify_tensor_type default_settings ''mask'' (VList [VTensor full_mask])
         (cl_required_inputs blend_closure) (cl_optional_inputs blend_closure) ''mask''
       = Inr VNone"
    by (simp add: verify_tensor_type_def tensor_types_def has_tag_def py_eq_def
          verify_one_tensor_def check_shapes_def default_settings_def blend_closure_def
          full_mask_def)
  have t: "has_tag (cl_required_inputs blend_closure) ''mask'' ''MASK''"
    by (simp add: has_tag_def py_eq_def blend_closure_def)
  have m: "coerce_arg default_settings initial_registry blend_closure ''mask''
             (VList [VTensor full_mask])
       = Inl (AttributeError (quote @ ''list'' @ quote @ '' object has no attribute '' @ quote
                @ ''shape'' @ quote))"
    by (simp add: required_mask_list_raises [OF t] no_attribute_def)
  have i: "\<exists>d. coerce_arg default_settings initial_registry blend_closure ''images''
                 (VList [VTensor pixel])
             = Inr (VList [VTensor pixel], d)"
    by (simp add: coerce_arg_def promote_mask_def has_tag_def py_eq_def autoconvert_def
        initial_registry_lookup describe_def type_fqn_def verify_tensor_type_def tensor_types_def
        verify_one_tensor_def check_shapes_def check_channels_def
        get_device_def default_settings_def blend_closure_def pixel_def dict_keys_def)
  have w: "wrapper default_settings initial_registry blend_closure []
         [(''images'', VList [VTensor pixel]), (''mask'', VList [VTensor full_mask])] initial_state
       = (initial_state, [],
          Inl (AttributeError (quote @ ''list'' @ quote @ '' object has no attribute '' @ quote
                 @ ''shape'' @ quote)))"
    using i m by (auto simp: wrapper_def)
  show ?thesis
    using s l d u v m w by simp
qed

text \<open>
  C7. The promotion looks in \<^verbatim>\<open>required_inputs\<close> only. For
  \<^verbatim>\<open>cut(image: ImageTensor, mask: MaskTensor = None)\<close> the schema puts \<^verbatim>\<open>mask\<close>, tagged
  MASK, among the optional inputs; a mask of shape (2, 2) is left as it is and the
  verification that follows, which looks in both maps, refuses it for its shape, so the
  wrapper raises. The same entry among the required inputs is promoted to (1, 2, 2).
\<close>

theorem optional_mask_is_not_promoted:
  "infer_input_types_from_annotations initial_registry cut_fn False False
     = Inr \<lparr>required_of = cl_required_inputs cut_closure, hidden_of = [],
            optional_of = cl_optional_inputs cut_closure,
            is_list_of = cl_input_is_list_map cut_closure,
            type_of = cl_input_type_map cut_closure\<rparr>
   \<and> has_tag (cl_optional_inputs cut_closure) ''mask'' ''MASK''
   \<and> length (shape flat_mask) = 2
   \<and> promote_mask cut_closure ''mask'' (VTensor flat_mask) = Inr (VTensor flat_mask)
   \<and> coerce_arg default_settings initial_registry cut_closure ''mask'' (VTensor flat_mask)
       = Inl (ValueError (''Error verifying INPUT tensor '' @ quote @ ''mask'' @ quote
                @ '': MASK tensor must have shape in [3], got torch.Size([2, 2])'' @ nl @ nl
                @ '' Source: cut nodes_demo.py:60''))
   \<and> wrapper default_settings initial_registry cut_closure []
         [(''image'', VTensor pixel), (''mask'', VTensor flat_mask)] initial_state
       = (initial_state, [],
          Inl (ValueError (''Error verifying INPUT tensor '' @ quote @ ''mask'' @ quote
                @ '': MASK tensor must have shape in [3], got torch.Size([2, 2])'' @ nl @ nl
                @ '' Source: cut nodes_demo.py:60'')))
   \<and> promote_mask (cut_closure\<lparr>cl_required_inputs := cl_optional_inputs cut_closure,
                                  cl_optional_inputs := []\<rparr>) ''mask'' (VTensor flat_mask)
       = Inr (VTensor (flat_mask\<lparr>shape := [1, 2, 2]\<rparr>))"
proof -
  have s: "infer_input_types_from_annotations initial_registry cut_fn False False
     = Inr \<lparr>required_of = cl_required_inputs cut_closure, hidden_of = [],
            optional_of = cl_optional_inputs cut_closure,
            is_list_of = cl_input_is_list_map cut_closure,
            type_of = cl_input_type_map cut_closure\<rparr>"
    by (simp add: infer_input_types_from_annotations_def cut_fn_def cut_closure_def
          annotate_input_def default_force_input_def initial_registry_lookup)
  have p: "promote_mask cut_closure ''mask'' (VTensor flat_mask) = Inr (VTensor flat_mask)"
    by (simp add: promote_mask_def has_tag_def cut_closure_def py_eq_def)
  have m: "coerce_arg default_settings initial_registry cut_closure ''mask'' (VTensor flat_mask)
       = Inl (ValueError (''Error verifying INPUT tensor '' @ quote @ ''mask'' @ quote
                @ '': MASK tensor must have shape in [3], got torch.Size([2, 2])'' @ nl @ nl
                @ '' Source: cut nodes_demo.py:60''))"
    by (simp add: coerce_arg_def promote_mask_def has_tag_def py_eq_def autoconvert_def
        initial_registry_lookup describe_def type_fqn_def verify_tensor_type_def tensor_types_def
        verify_one_tensor_def check_shapes_def check_mask_range_def tensor_min_def tensor_max_def
        get_device_def default_settings_def cut_closure_def flat_mask_def dict_keys_def
        show_size_def show_list_def show_nat.simps digit_char_def quote_def nl_def)
  have i: "\<exists>d. coerce_arg default_settings initial_registry cut_closure ''image'' (VTensor pixel)
             = Inr (VTensor pixel, d)"
    by (simp add: coerce_arg_def promote_mask_def has_tag_def py_eq_def autoconvert_def
        initial_registry_lookup describe_def type_fqn_def verify_tensor_type_def tensor_types_def
        verify_one_tensor_def check_shapes_def check_channels_def
        get_device_def default_settings_def cut_closure_def pixel_def dict_keys_def)
  have w: "wrapper default_settings initial_registry cut_closure []
         [(''image'', VTensor pixel), (''mask'', VTensor flat_mask)] initial_state
       = (initial_state, [],
          Inl (ValueError (''Error verifying INPUT tensor '' @ quote @ ''mask'' @ quote
                @ '': MASK tensor must have shape in [3], got torch.Size([2, 2])'' @ nl @ nl
                @ '' Source: cut nodes_demo.py:60'')))"
    using i m by (auto simp: wrapper_def)
  have q: "promote_mask (cut_closure\<lparr>cl_required_inputs := cl_optional_inputs cut_closure,
                                  cl_optional_inputs := []\<rparr>) ''mask'' (VTensor flat_mask)
       = Inr (VTensor (flat_mask\<lparr>shape := [1, 2, 2]\<rparr>))"
    by (simp add: promote_mask_def has_tag_def cut_closure_def py_eq_def flat_mask_def
          unsqueeze0_def)
  show ?thesis
    using s p m w q by (simp add: has_tag_def cut_closure_def py_eq_def flat_mask_def)
qed


end
